theory Spec2Isabelle
  imports Complex_Main "HOL-Library.Product_Lexorder" "HOL-Library.Monad_Syntax"
begin

section \<open>JavaScript values used by the clinic store\<close>

text \<open>
  The store is TypeScript running in a browser. Its values are modelled as follows.
  \<^item> A \<open>number\<close> that holds a currency amount is a \<open>real\<close>; an age, a day
    count and a millisecond timestamp are \<open>int\<close>. Arithmetic is exact: the rounding
    of IEEE doubles, \<open>NaN\<close> and the infinities are outside the model, and so are
    strings that the \<open>Date\<close> constructor cannot parse (they would give \<open>NaN\<close>).
  \<^item> A string is a \<open>string\<close>: a list of code units below 256. Text with other
    code units is outside the model.
  \<^item> An optional property (\<open>email?: string\<close>) is an \<open>option\<close>: a property
    that is missing and one that holds \<open>undefined\<close> read the same.
  \<^item> Where an object is spread over another one (\<open>{...existing, ...data}\<close>) the two
    do differ, so an optional property of a spread argument is a \<open>patch\<close>.
\<close>

datatype 'a patch = Absent | Undefined | Value 'a

text \<open>\<open>{...{k: e}, ...data}.k\<close>: a property that \<open>data\<close> owns wins, also when its
  value is \<open>undefined\<close>.\<close>

fun spread :: "'a option \<Rightarrow> 'a patch \<Rightarrow> 'a option" where
  "spread e Absent = e"
| "spread e Undefined = None"
| "spread e (Value v) = Some v"

text \<open>\<open>data.k ?? e\<close>: the left operand unless it is \<open>undefined\<close>.\<close>

fun coalesce :: "'a patch \<Rightarrow> 'a option \<Rightarrow> 'a option" where
  "coalesce (Value v) e = Some v"
| "coalesce Absent e = e"
| "coalesce Undefined e = e"

text \<open>Truthiness of an optional string: \<open>undefined\<close> and the empty string are falsy.\<close>

fun truthy :: "string option \<Rightarrow> bool" where
  "truthy None = False"
| "truthy (Some s) = (s \<noteq> [])"

text \<open>\<open>String.prototype.trim\<close> removes white space and line terminators from both
  ends. Of these, the code units below 256 are tab, line feed, vertical tab, form feed,
  carriage return, space and the no-break space \<open>U+00A0\<close>.\<close>

definition js_whitespace :: "char \<Rightarrow> bool" where
  "js_whitespace c =
     (c \<in> set [CHR 0x09, CHR 0x0A, CHR 0x0B, CHR 0x0C, CHR 0x0D, CHR 0x20, CHR 0xA0])"

definition trim :: "string \<Rightarrow> string" where
  "trim s = rev (dropWhile js_whitespace (rev (dropWhile js_whitespace s)))"

text \<open>The decimal text of an integer, as a template literal prints it.\<close>

definition digit_char :: "nat \<Rightarrow> char" where
  "digit_char n = ''0123456789'' ! n"

function nat_str :: "nat \<Rightarrow> string" where
  "nat_str n = (if n < 10 then [digit_char n] else nat_str (n div 10) @ [digit_char (n mod 10)])"
  by pat_completeness auto
termination
  by (relation "measure (\<lambda>n. n)") auto

definition number_str :: "int \<Rightarrow> string" where
  "number_str i = (if i < 0 then CHR ''-'' # nat_str (nat (- i)) else nat_str (nat i))"

text \<open>\<open>Math.round\<close>: the nearest integer, a tie going up.\<close>

definition Math_round :: "real \<Rightarrow> int" where
  "Math_round x = \<lfloor>x + 1 / 2\<rfloor>"

section \<open>Data model\<close>

datatype Gender = male | female

fun gender_str :: "Gender \<Rightarrow> string" where
  "gender_str male = ''male''"
| "gender_str female = ''female''"

datatype PaymentMethod = cash | card | insurance | transfer

record PatientContact =
  phone :: string
  email :: "string option"
  address :: "string option"
  emergencyContactName :: "string option"
  emergencyContactPhone :: "string option"

record Patient =
  id_p :: string
  firstName :: string
  lastName :: string
  gender :: Gender
  birthDate :: string
  age :: int
  contact :: PatientContact
  chronicConditions :: "string list"
  allergies :: "string list"
  notes_p :: "string option"
  createdAt_p :: string
  updatedAt_p :: string

record VisitVitals =
  bloodPressure :: "string option"
  heartRate :: "string option"
  temperature :: "string option"
  oxygenSaturation :: "string option"

record Visit =
  id_v :: string
  patientId_v :: string
  visitDate :: string
  reason :: string
  complaints :: "string list"
  diagnoses :: "string list"
  notes_v :: "string option"
  treatmentPlan :: "string option"
  followUpDate :: "string option"
  vitals :: VisitVitals
  attendingPhysician :: "string option"
  createdAt_v :: string
  updatedAt_v :: string

record Payment =
  id_pay :: string
  patientId_pay :: string
  visitId :: "string option"
  amountDue :: real
  amountPaid :: real
  method_pay :: PaymentMethod
  invoiceNumber :: "string option"
  recordedAt :: string
  updatedAt_pay :: string
  notes_pay :: "string option"

record ClinicState =
  patients :: "Patient list"
  visits :: "Visit list"
  payments :: "Payment list"

text \<open>\<open>NewPatientInput = Omit<Patient, "id" | "createdAt" | "updatedAt" | "age">\<close>.\<close>

record NewPatientInput =
  np_firstName :: string
  np_lastName :: string
  np_gender :: Gender
  np_birthDate :: string
  np_contact :: PatientContact
  np_chronicConditions :: "string list"
  np_allergies :: "string list"
  np_notes :: "string option"

text \<open>
  \<open>UpdatePatientInput = Partial<NewPatientInput>\<close>. A property whose target is required
  is \<open>None\<close> when the partial does not give it (giving it the value \<open>undefined\<close>
  would build a record outside the \<open>Patient\<close> type, and is not modelled); a property
  whose target is optional is a \<open>patch\<close>. The \<open>contact\<close> of a partial is an object
  that is spread over the stored contact, so its optional properties are patches.
\<close>

record ContactPatch =
  cp_phone :: string
  cp_email :: "string patch"
  cp_address :: "string patch"
  cp_emergencyContactName :: "string patch"
  cp_emergencyContactPhone :: "string patch"

record UpdatePatientInput =
  up_firstName :: "string option"
  up_lastName :: "string option"
  up_gender :: "Gender option"
  up_birthDate :: "string option"
  up_contact :: "ContactPatch option"
  up_chronicConditions :: "string list option"
  up_allergies :: "string list option"
  up_notes :: "string patch"

text \<open>\<open>NewVisitInput = Omit<Visit, "id" | "createdAt" | "updatedAt">\<close>; \<open>addVisit\<close>
  reads \<open>data.vitals ?? {}\<close>, so the vitals may be missing at run time.\<close>

record NewVisitInput =
  nv_patientId :: string
  nv_visitDate :: string
  nv_reason :: string
  nv_complaints :: "string list"
  nv_diagnoses :: "string list"
  nv_notes :: "string option"
  nv_treatmentPlan :: "string option"
  nv_followUpDate :: "string option"
  nv_vitals :: "VisitVitals option"
  nv_attendingPhysician :: "string option"

record VitalsPatch =
  vp_bloodPressure :: "string patch"
  vp_heartRate :: "string patch"
  vp_temperature :: "string patch"
  vp_oxygenSaturation :: "string patch"

text \<open>\<open>UpdateVisitInput = Partial<Omit<Visit, "id" | "patientId" | "createdAt" | "updatedAt">>\<close>.\<close>

record UpdateVisitInput =
  uv_visitDate :: "string option"
  uv_reason :: "string option"
  uv_complaints :: "string list option"
  uv_diagnoses :: "string list option"
  uv_notes :: "string patch"
  uv_treatmentPlan :: "string patch"
  uv_followUpDate :: "string patch"
  uv_vitals :: "VitalsPatch option"
  uv_attendingPhysician :: "string patch"

text \<open>\<open>NewPaymentInput = Omit<Payment, "id" | "recordedAt" | "updatedAt">\<close>.\<close>

record NewPaymentInput =
  ny_patientId :: string
  ny_visitId :: "string option"
  ny_amountDue :: real
  ny_amountPaid :: real
  ny_method :: PaymentMethod
  ny_invoiceNumber :: "string option"
  ny_notes :: "string option"

text \<open>\<open>UpdatePaymentInput = Partial<Omit<Payment, "id" | "patientId" | "recordedAt">>\<close>;
  the type keeps \<open>updatedAt\<close>, which \<open>updatePayment\<close> overwrites.\<close>

record UpdatePaymentInput =
  uy_visitId :: "string patch"
  uy_amountDue :: "real option"
  uy_amountPaid :: "real option"
  uy_method :: "PaymentMethod option"
  uy_invoiceNumber :: "string patch"
  uy_updatedAt :: "string option"
  uy_notes :: "string patch"

section \<open>The environment: clock, calendar and random ids\<close>

text \<open>
  What the store reads from the browser is a parameter of every operation:
  \<^item> \<open>now\<close>: \<open>new Date().getTime()\<close>, milliseconds since the epoch (the operations
    read the clock more than once within a call; the model reads one instant);
  \<^item> \<open>nowIso\<close>: \<open>new Date().toISOString()\<close>;
  \<^item> \<open>parseDate s\<close>: \<open>new Date(s).getTime()\<close>;
  \<^item> \<open>getFullYear\<close>, \<open>getMonth\<close>, \<open>getDate\<close>: the calendar fields of an
    instant in the local time zone;
  \<^item> \<open>startOfDay t\<close>: the instant after \<open>setHours(0, 0, 0, 0)\<close>;
  \<^item> \<open>randomId\<close>: the text \<open>crypto.randomUUID()\<close> (or the \<open>Math.random\<close>
    fallback) returns.
\<close>

record env =
  now :: int
  nowIso :: string
  parseDate :: "string \<Rightarrow> int"
  getFullYear :: "int \<Rightarrow> int"
  getMonth :: "int \<Rightarrow> int"
  getDate :: "int \<Rightarrow> int"
  startOfDay :: "int \<Rightarrow> int"
  randomId :: string

section \<open>The store (ClinicContext.tsx)\<close>

definition calculateAge :: "env \<Rightarrow> string \<Rightarrow> int" where
  "calculateAge E birthDate' =
     (let today = now E;
          birth = parseDate E birthDate';
          age' = getFullYear E today - getFullYear E birth;
          monthDiff = getMonth E today - getMonth E birth
      in if monthDiff < 0 \<or> (monthDiff = 0 \<and> getDate E today < getDate E birth)
         then age' - 1 else age')"

text \<open>\<open>x?.trim() ? x : undefined\<close>\<close>

definition keepIfNotBlank :: "string option \<Rightarrow> string option" where
  "keepIfNotBlank x = (case x of None \<Rightarrow> None | Some s \<Rightarrow> if trim s \<noteq> [] then Some s else None)"

definition sanitizeContact :: "PatientContact \<Rightarrow> PatientContact" where
  "sanitizeContact c =
     \<lparr> phone = phone c,
       email = keepIfNotBlank (email c),
       address = keepIfNotBlank (address c),
       emergencyContactName = keepIfNotBlank (emergencyContactName c),
       emergencyContactPhone = keepIfNotBlank (emergencyContactPhone c) \<rparr>"

definition createId :: "env \<Rightarrow> string \<Rightarrow> string" where
  "createId E prefix = prefix @ ''-'' @ randomId E"

datatype ClinicAction =
    ADD_PATIENT Patient
  | UPDATE_PATIENT Patient
  | ADD_VISIT Visit
  | UPDATE_VISIT Visit
  | ADD_PAYMENT Payment
  | UPDATE_PAYMENT Payment

fun clinicReducer :: "ClinicState \<Rightarrow> ClinicAction \<Rightarrow> ClinicState" where
  "clinicReducer state (ADD_PATIENT payload) =
     state\<lparr>patients := patients state @ [payload]\<rparr>"
| "clinicReducer state (UPDATE_PATIENT payload) =
     state\<lparr>patients := map (\<lambda>patient. if id_p patient = id_p payload then payload else patient)
                              (patients state)\<rparr>"
| "clinicReducer state (ADD_VISIT payload) =
     state\<lparr>visits := visits state @ [payload]\<rparr>"
| "clinicReducer state (UPDATE_VISIT payload) =
     state\<lparr>visits := map (\<lambda>visit. if id_v visit = id_v payload then payload else visit)
                            (visits state)\<rparr>"
| "clinicReducer state (ADD_PAYMENT payload) =
     state\<lparr>payments := payments state @ [payload]\<rparr>"
| "clinicReducer state (UPDATE_PAYMENT payload) =
     state\<lparr>payments := map (\<lambda>payment. if id_pay payment = id_pay payload then payload else payment)
                              (payments state)\<rparr>"

text \<open>\<open>{ ...existing, ...data }.k\<close> and \<open>data.k ?? existing.k\<close> for a property that the
  record requires: the value the partial gives, or else the stored one.\<close>

definition or_existing :: "'a option \<Rightarrow> 'a \<Rightarrow> 'a" where
  "or_existing given existing = (case given of Some v \<Rightarrow> v | None \<Rightarrow> existing)"

text \<open>\<open>{ ...existing.contact, ...data.contact }\<close>\<close>

definition spreadContact :: "PatientContact \<Rightarrow> ContactPatch \<Rightarrow> PatientContact" where
  "spreadContact e c =
     \<lparr> phone = cp_phone c,
       email = spread (email e) (cp_email c),
       address = spread (address e) (cp_address c),
       emergencyContactName = spread (emergencyContactName e) (cp_emergencyContactName c),
       emergencyContactPhone = spread (emergencyContactPhone e) (cp_emergencyContactPhone c) \<rparr>"

text \<open>\<open>{ ...existing.vitals, ...data.vitals }\<close>\<close>

definition spreadVitals :: "VisitVitals \<Rightarrow> VitalsPatch \<Rightarrow> VisitVitals" where
  "spreadVitals e v =
     \<lparr> bloodPressure = spread (bloodPressure e) (vp_bloodPressure v),
       heartRate = spread (heartRate e) (vp_heartRate v),
       temperature = spread (temperature e) (vp_temperature v),
       oxygenSaturation = spread (oxygenSaturation e) (vp_oxygenSaturation v) \<rparr>"

text \<open>
  Each operation of the provider takes the environment and the state it closes over and
  returns its result with the state after the dispatched action. An update of an id
  that \<open>find\<close> does not meet returns \<open>undefined\<close> (\<open>None\<close>) and dispatches nothing.
\<close>

definition addPatient :: "env \<Rightarrow> ClinicState \<Rightarrow> NewPatientInput \<Rightarrow> Patient \<times> ClinicState" where
  "addPatient E state data =
     (let timestamp = nowIso E;
          patient =
            \<lparr> id_p = createId E ''pat'',
              firstName = np_firstName data,
              lastName = np_lastName data,
              gender = np_gender data,
              birthDate = np_birthDate data,
              age = calculateAge E (np_birthDate data),
              contact = sanitizeContact (np_contact data),
              chronicConditions = np_chronicConditions data,
              allergies = np_allergies data,
              notes_p = np_notes data,
              createdAt_p = timestamp,
              updatedAt_p = timestamp \<rparr>
      in (patient, clinicReducer state (ADD_PATIENT patient)))"

definition updatePatient ::
  "env \<Rightarrow> ClinicState \<Rightarrow> string \<Rightarrow> UpdatePatientInput \<Rightarrow> Patient option \<times> ClinicState" where
  "updatePatient E state id' data =
     (case find (\<lambda>patient. id_p patient = id') (patients state) of
        None \<Rightarrow> (None, state)
      | Some existing \<Rightarrow>
          (let timestamp = nowIso E;
               mergedContact =
                 (case up_contact data of
                    Some c \<Rightarrow> sanitizeContact (spreadContact (contact existing) c)
                  | None \<Rightarrow> contact existing);
               updatedPatient =
                 \<lparr> id_p = id_p existing,
                   firstName = or_existing (up_firstName data) (firstName existing),
                   lastName = or_existing (up_lastName data) (lastName existing),
                   gender = or_existing (up_gender data) (gender existing),
                   birthDate = or_existing (up_birthDate data) (birthDate existing),
                   age = (if truthy (up_birthDate data)
                          then calculateAge E (the (up_birthDate data)) else age existing),
                   contact = mergedContact,
                   chronicConditions =
                     or_existing (up_chronicConditions data) (chronicConditions existing),
                   allergies = or_existing (up_allergies data) (allergies existing),
                   notes_p = spread (notes_p existing) (up_notes data),
                   createdAt_p = createdAt_p existing,
                   updatedAt_p = timestamp \<rparr>
           in (Some updatedPatient, clinicReducer state (UPDATE_PATIENT updatedPatient))))"

definition addVisit :: "env \<Rightarrow> ClinicState \<Rightarrow> NewVisitInput \<Rightarrow> Visit \<times> ClinicState" where
  "addVisit E state data =
     (let timestamp = nowIso E;
          visit =
            \<lparr> id_v = createId E ''visit'',
              patientId_v = nv_patientId data,
              visitDate = nv_visitDate data,
              reason = nv_reason data,
              complaints = nv_complaints data,
              diagnoses = nv_diagnoses data,
              notes_v = nv_notes data,
              treatmentPlan = nv_treatmentPlan data,
              followUpDate = nv_followUpDate data,
              vitals = or_existing (nv_vitals data)
                         \<lparr> bloodPressure = None, heartRate = None,
                           temperature = None, oxygenSaturation = None \<rparr>,
              attendingPhysician = nv_attendingPhysician data,
              createdAt_v = timestamp,
              updatedAt_v = timestamp \<rparr>
      in (visit, clinicReducer state (ADD_VISIT visit)))"

definition updateVisit ::
  "env \<Rightarrow> ClinicState \<Rightarrow> string \<Rightarrow> UpdateVisitInput \<Rightarrow> Visit option \<times> ClinicState" where
  "updateVisit E state id' data =
     (case find (\<lambda>visit. id_v visit = id') (visits state) of
        None \<Rightarrow> (None, state)
      | Some existing \<Rightarrow>
          (let timestamp = nowIso E;
               updatedVisit =
                 \<lparr> id_v = id_v existing,
                   patientId_v = patientId_v existing,
                   visitDate = or_existing (uv_visitDate data) (visitDate existing),
                   reason = or_existing (uv_reason data) (reason existing),
                   complaints = or_existing (uv_complaints data) (complaints existing),
                   diagnoses = or_existing (uv_diagnoses data) (diagnoses existing),
                   notes_v = spread (notes_v existing) (uv_notes data),
                   treatmentPlan = spread (treatmentPlan existing) (uv_treatmentPlan data),
                   followUpDate = spread (followUpDate existing) (uv_followUpDate data),
                   vitals =
                     (case uv_vitals data of
                        Some v \<Rightarrow> spreadVitals (vitals existing) v
                      | None \<Rightarrow> vitals existing),
                   attendingPhysician =
                     spread (attendingPhysician existing) (uv_attendingPhysician data),
                   createdAt_v = createdAt_v existing,
                   updatedAt_v = timestamp \<rparr>
           in (Some updatedVisit, clinicReducer state (UPDATE_VISIT updatedVisit))))"

definition addPayment :: "env \<Rightarrow> ClinicState \<Rightarrow> NewPaymentInput \<Rightarrow> Payment \<times> ClinicState" where
  "addPayment E state data =
     (let timestamp = nowIso E;
          payment =
            \<lparr> id_pay = createId E ''pay'',
              patientId_pay = ny_patientId data,
              visitId = ny_visitId data,
              amountDue = ny_amountDue data,
              amountPaid = ny_amountPaid data,
              method_pay = ny_method data,
              invoiceNumber = ny_invoiceNumber data,
              recordedAt = timestamp,
              updatedAt_pay = timestamp,
              notes_pay = ny_notes data \<rparr>
      in (payment, clinicReducer state (ADD_PAYMENT payment)))"

definition updatePayment ::
  "env \<Rightarrow> ClinicState \<Rightarrow> string \<Rightarrow> UpdatePaymentInput \<Rightarrow> Payment option \<times> ClinicState" where
  "updatePayment E state id' data =
     (case find (\<lambda>payment. id_pay payment = id') (payments state) of
        None \<Rightarrow> (None, state)
      | Some existing \<Rightarrow>
          (let timestamp = nowIso E;
               updatedPayment =
                 \<lparr> id_pay = id_pay existing,
                   patientId_pay = patientId_pay existing,
                   visitId = spread (visitId existing) (uy_visitId data),
                   amountDue = or_existing (uy_amountDue data) (amountDue existing),
                   amountPaid = or_existing (uy_amountPaid data) (amountPaid existing),
                   method_pay = or_existing (uy_method data) (method_pay existing),
                   invoiceNumber = coalesce (uy_invoiceNumber data) (invoiceNumber existing),
                   recordedAt = recordedAt existing,
                   updatedAt_pay = timestamp,
                   notes_pay = coalesce (uy_notes data) (notes_pay existing) \<rparr>
           in (Some updatedPayment, clinicReducer state (UPDATE_PAYMENT updatedPayment))))"

section \<open>Seed data (constants/clinic.ts)\<close>

text \<open>The seed computes the ages and the patient and visit timestamps when the module
  is loaded, so it depends on the environment too.\<close>

definition patientsSeed :: "env \<Rightarrow> Patient list" where
  "patientsSeed E =
     [ \<lparr> id_p = ''pat-amani-youssef'', firstName = ''Amani'', lastName = ''Youssef'',
         gender = female, birthDate = ''1988-02-14'', age = calculateAge E ''1988-02-14'',
         contact = \<lparr> phone = ''0771234567'', email = Some ''amani.youssef@example.com'',
                     address = Some ''Khalda, Amman'',
                     emergencyContactName = Some ''Karim Youssef'',
                     emergencyContactPhone = Some ''0771234567'' \<rparr>,
         chronicConditions = [''Hypertension'', ''Asthma''], allergies = [''Penicillin''],
         notes_p = Some ''Prefers evening appointments and follows DASH diet.'',
         createdAt_p = nowIso E, updatedAt_p = nowIso E \<rparr>,
       \<lparr> id_p = ''pat-omar-salem'', firstName = ''Omar'', lastName = ''Salem'',
         gender = male, birthDate = ''1975-07-03'', age = calculateAge E ''1975-07-03'',
         contact = \<lparr> phone = ''0798765432'', email = Some ''omar.salem@example.com'',
                     address = Some ''8th circle, Amman'',
                     emergencyContactName = Some ''Mona Salem'',
                     emergencyContactPhone = Some ''0798765432'' \<rparr>,
         chronicConditions = [''Diabetes'', ''Heart Disease''], allergies = [''Sulfa Drugs''],
         notes_p = Some ''Uses insulin pump and monitors glucose twice daily.'',
         createdAt_p = nowIso E, updatedAt_p = nowIso E \<rparr>,
       \<lparr> id_p = ''pat-laila-hassan'', firstName = ''Laila'', lastName = ''Hassan'',
         gender = female, birthDate = ''1994-11-22'', age = calculateAge E ''1994-11-22'',
         contact = \<lparr> phone = ''0798765432'', email = Some ''laila.hassan@example.com'',
                     address = Some ''Marj al hmam, Amman'',
                     emergencyContactName = Some ''Hassan Abdelrahman'',
                     emergencyContactPhone = Some ''0798765432'' \<rparr>,
         chronicConditions = [''Thyroid Disorders''], allergies = [],
         notes_p = Some ''On thyroid hormone replacement therapy.'',
         createdAt_p = nowIso E, updatedAt_p = nowIso E \<rparr> ]"

definition visitsSeed :: "env \<Rightarrow> Visit list" where
  "visitsSeed E =
     [ \<lparr> id_v = ''visit-amani-1'', patientId_v = ''pat-amani-youssef'',
         visitDate = ''2025-10-12'', reason = ''Routine follow-up'',
         complaints = [''Headache'', ''Shortness of Breath''], diagnoses = [''Hypertension''],
         notes_v = Some ''Blood pressure elevated, adjust medication.'',
         treatmentPlan =
           Some ''Increase beta blocker dosage and schedule pulmonary function test.'',
         followUpDate = Some ''2025-11-10'',
         vitals = \<lparr> bloodPressure = Some ''150/95'', heartRate = Some ''92 bpm'',
                    temperature = None, oxygenSaturation = Some ''96%'' \<rparr>,
         attendingPhysician = Some ''Dr. Nour El Din'',
         createdAt_v = nowIso E, updatedAt_v = nowIso E \<rparr>,
       \<lparr> id_v = ''visit-omar-1'', patientId_v = ''pat-omar-salem'',
         visitDate = ''2025-09-28'', reason = ''Post surgery review'',
         complaints = [''General Fatigue''], diagnoses = [''Heart Failure''],
         notes_v = Some ''Recovery progressing, monitor cardiac rehab adherence.'',
         treatmentPlan = Some ''Continue medication, start light exercise with supervision.'',
         followUpDate = Some ''2025-12-01'',
         vitals = \<lparr> bloodPressure = Some ''130/85'', heartRate = Some ''78 bpm'',
                    temperature = None, oxygenSaturation = None \<rparr>,
         attendingPhysician = Some ''Dr. Karim Awad'',
         createdAt_v = nowIso E, updatedAt_v = nowIso E \<rparr>,
       \<lparr> id_v = ''visit-laila-1'', patientId_v = ''pat-laila-hassan'',
         visitDate = ''2025-11-05'', reason = ''New symptoms'',
         complaints = [''Dizziness'', ''Fatigue''], diagnoses = [''Thyroid Disorders''],
         notes_v = Some ''Adjust hormone replacement dosage.'',
         treatmentPlan = Some ''Update lab tests in 6 weeks and adjust medication.'',
         followUpDate = Some ''2025-12-20'',
         vitals = \<lparr> bloodPressure = Some ''118/76'', heartRate = Some ''72 bpm'',
                    temperature = None, oxygenSaturation = None \<rparr>,
         attendingPhysician = Some ''Dr. Hala Ibrahim'',
         createdAt_v = nowIso E, updatedAt_v = nowIso E \<rparr> ]"

definition paymentsSeed :: "Payment list" where
  "paymentsSeed =
     [ \<lparr> id_pay = ''pay-amani-1'', patientId_pay = ''pat-amani-youssef'',
         visitId = Some ''visit-amani-1'', amountDue = 1200, amountPaid = 800,
         method_pay = card, invoiceNumber = Some ''INV-2025-1001'',
         recordedAt = ''2025-10-12T14:10:00.000Z'', updatedAt_pay = ''2025-10-30T09:00:00.000Z'',
         notes_pay = Some ''Insurance pending for remaining balance.'' \<rparr>,
       \<lparr> id_pay = ''pay-omar-1'', patientId_pay = ''pat-omar-salem'',
         visitId = Some ''visit-omar-1'', amountDue = 3500, amountPaid = 3500,
         method_pay = insurance, invoiceNumber = Some ''INV-2025-1022'',
         recordedAt = ''2025-09-28T11:20:00.000Z'', updatedAt_pay = ''2025-09-28T11:20:00.000Z'',
         notes_pay = Some ''Covered under premium plan.'' \<rparr>,
       \<lparr> id_pay = ''pay-laila-1'', patientId_pay = ''pat-laila-hassan'',
         visitId = Some ''visit-laila-1'', amountDue = 650, amountPaid = 400,
         method_pay = cash, invoiceNumber = Some ''INV-2025-1102'',
         recordedAt = ''2025-11-05T16:45:00.000Z'', updatedAt_pay = ''2025-11-05T16:45:00.000Z'',
         notes_pay = Some ''Patient will settle the rest next visit.'' \<rparr> ]"

definition INITIAL_CLINIC_STATE :: "env \<Rightarrow> ClinicState" where
  "INITIAL_CLINIC_STATE E =
     \<lparr> patients = patientsSeed E, visits = visitsSeed E, payments = paymentsSeed \<rparr>"

section \<open>Payments page and analytics page: balance and status\<close>

datatype PaymentStatus = paid | partial | pending

text \<open>The payments page.\<close>

definition getPaymentStatus :: "Payment \<Rightarrow> PaymentStatus" where
  "getPaymentStatus payment =
     (let balance = amountDue payment - amountPaid payment
      in if balance \<le> 0 then paid
         else if amountPaid payment = 0 then pending
         else partial)"

text \<open>The analytics page has its own copy, on the two amounts.\<close>

definition getPaymentStatus_analytics :: "real \<Rightarrow> real \<Rightarrow> PaymentStatus" where
  "getPaymentStatus_analytics amountDue' amountPaid' =
     (let balance = amountDue' - amountPaid'
      in if balance \<le> 0 then paid
         else if amountPaid' = 0 then pending
         else partial)"

record PaymentRow =
  row_payment :: Payment
  row_patient :: "Patient option"
  row_visit :: "Visit option"
  row_balance :: real
  row_status :: PaymentStatus

definition paymentRow :: "ClinicState \<Rightarrow> Payment \<Rightarrow> PaymentRow" where
  "paymentRow state payment =
     \<lparr> row_payment = payment,
       row_patient = find (\<lambda>entry. id_p entry = patientId_pay payment) (patients state),
       row_visit = (case visitId payment of
                      None \<Rightarrow> None
                    | Some vid \<Rightarrow> find (\<lambda>entry. id_v entry = vid) (visits state)),
       row_balance = max (amountDue payment - amountPaid payment) 0,
       row_status = getPaymentStatus payment \<rparr>"

text \<open>The rows are sorted by \<open>recordedAt\<close>, latest first; the sort is stable.\<close>

definition paymentRows :: "env \<Rightarrow> ClinicState \<Rightarrow> PaymentRow list" where
  "paymentRows E state =
     sort_key (\<lambda>r. - parseDate E (recordedAt (row_payment r)))
       (map (paymentRow state) (payments state))"

section \<open>Follow-ups (patients page and home page)\<close>

datatype tone = muted | destructive | warning | accent

record FollowUpStatus =
  label :: string
  tone :: tone

definition msInDay :: int where
  "msInDay = 1000 * 60 * 60 * 24"

definition diffDays :: "env \<Rightarrow> string \<Rightarrow> int" where
  "diffDays E isoDate =
     (let today = startOfDay E (now E);
          target = startOfDay E (parseDate E isoDate)
      in Math_round (of_int (target - today) / of_int msInDay))"

definition getFollowUpStatus :: "env \<Rightarrow> string option \<Rightarrow> FollowUpStatus" where
  "getFollowUpStatus E isoDate =
     (if \<not> truthy isoDate then \<lparr> label = ''No date set'', tone = muted \<rparr>
      else
        (let d = diffDays E (the isoDate)
         in if d < 0 then
              \<lparr> label = number_str \<bar>d\<bar> @ '' day'' @ (if d = - 1 then [] else ''s'')
                          @ '' overdue'',
                tone = destructive \<rparr>
            else if d = 0 then \<lparr> label = ''Due today'', tone = warning \<rparr>
            else if d \<le> 3 then \<lparr> label = ''Due soon'', tone = warning \<rparr>
            else if d \<le> 7 then \<lparr> label = ''Next 7 days'', tone = accent \<rparr>
            else \<lparr> label = ''In '' @ number_str d @ '' days'', tone = muted \<rparr>))"

record UpcomingFollowUp =
  fu_visit :: Visit
  fu_patient :: "Patient option"
  fu_followUpDate :: string

text \<open>The follow-up list of the patients page.\<close>

definition upcomingFollowUps :: "env \<Rightarrow> Patient list \<Rightarrow> Visit list \<Rightarrow> UpcomingFollowUp list" where
  "upcomingFollowUps E patients' visits' =
     (let today = startOfDay E (now E)
      in sort_key (\<lambda>item. parseDate E (fu_followUpDate item))
           (filter (\<lambda>item. fu_patient item \<noteq> None
                            \<and> startOfDay E (parseDate E (fu_followUpDate item)) \<ge> today)
              (map (\<lambda>visit. \<lparr> fu_visit = visit,
                               fu_patient = find (\<lambda>entry. id_p entry = patientId_v visit) patients',
                               fu_followUpDate = the (followUpDate visit) \<rparr>)
                 (filter (\<lambda>visit. truthy (followUpDate visit)) visits'))))"

text \<open>The follow-up card of the home page: the first four in time order; a visit
  without a date would sort at \<open>Infinity\<close>.\<close>

definition followUpTime :: "env \<Rightarrow> Visit \<Rightarrow> nat \<times> int" where
  "followUpTime E visit =
     (if truthy (followUpDate visit) then (0, parseDate E (the (followUpDate visit))) else (1, 0))"

definition upcomingFollowUps_home :: "env \<Rightarrow> Visit list \<Rightarrow> Visit list" where
  "upcomingFollowUps_home E visits' =
     take 4
       (sort_key (followUpTime E)
          (filter (\<lambda>visit. truthy (followUpDate visit)
                           \<and> parseDate E (the (followUpDate visit)) \<ge> now E) visits'))"

text \<open>The next follow-up of one patient, on the page of that patient: the first entry,
  or \<open>undefined\<close>.\<close>

definition upcomingFollowUp :: "env \<Rightarrow> Visit list \<Rightarrow> (Visit \<times> string) option" where
  "upcomingFollowUp E patientVisits =
     (let today = startOfDay E (now E);
          entries =
            sort_key (\<lambda>entry. parseDate E (snd entry))
              (filter (\<lambda>entry. startOfDay E (parseDate E (snd entry)) \<ge> today)
                 (map (\<lambda>visit. (visit, the (followUpDate visit)))
                    (filter (\<lambda>visit. truthy (followUpDate visit)) patientVisits)))
      in case entries of [] \<Rightarrow> None | entry # _ \<Rightarrow> Some entry)"

section \<open>Analytics page: the patient filter\<close>

text \<open>The visits of each patient, in a \<open>Map\<close> from the patient id.\<close>

definition visitsGroupedByPatient :: "Visit list \<Rightarrow> (string \<rightharpoonup> Visit list)" where
  "visitsGroupedByPatient visits' =
     foldl (\<lambda>grouped visit.
              (let g = (if grouped (patientId_v visit) = None
                        then grouped(patientId_v visit \<mapsto> []) else grouped)
               in g(patientId_v visit \<mapsto> the (g (patientId_v visit)) @ [visit])))
       Map.empty visits'"

definition patientPasses ::
  "Visit list \<Rightarrow> string list \<Rightarrow> int \<Rightarrow> int \<Rightarrow> string list \<Rightarrow> string list \<Rightarrow> Patient \<Rightarrow> bool" where
  "patientPasses visits' selectedGenders ageMin ageMax selectedChronicConditions
       selectedDiseases patient =
     (let safeMin = max 0 ageMin;
          safeMax = max safeMin ageMax
      in if selectedGenders \<noteq> [] \<and> gender_str (gender patient) \<notin> set selectedGenders
         then False
         else if age patient < safeMin \<or> age patient > safeMax then False
         else if selectedChronicConditions \<noteq> []
                 \<and> \<not> list_all (\<lambda>condition. condition \<in> set (chronicConditions patient))
                       selectedChronicConditions
         then False
         else if selectedDiseases \<noteq> [] then
           (let patientVisits =
                  (case visitsGroupedByPatient visits' (id_p patient) of
                     Some vs \<Rightarrow> vs | None \<Rightarrow> []);
                hasDiseaseMatch =
                  list_ex (\<lambda>visit. list_ex (\<lambda>diagnosis. diagnosis \<in> set selectedDiseases)
                                      (diagnoses visit)) patientVisits
            in if \<not> hasDiseaseMatch then False else True)
         else True)"

definition filteredPatients ::
  "Patient list \<Rightarrow> Visit list \<Rightarrow> string list \<Rightarrow> int \<Rightarrow> int \<Rightarrow> string list \<Rightarrow> string list
     \<Rightarrow> Patient list" where
  "filteredPatients patients' visits' selectedGenders ageMin ageMax selectedChronicConditions
       selectedDiseases =
     filter (patientPasses visits' selectedGenders ageMin ageMax selectedChronicConditions
               selectedDiseases) patients'"

section \<open>Persistence: the JSON document in local storage\<close>

text \<open>
  \<open>JSON.stringify\<close> and \<open>JSON.parse\<close> belong to the browser. The model keeps the
  document as a tree: \<open>state_to_json\<close> is the tree that \<open>JSON.stringify(state)\<close> writes
  (one object with the three arrays; a property that is \<open>undefined\<close> is left out), and
  the \<open>parse\<close> functions read the properties back as the cast
  \<open>JSON.parse(stored) as ClinicState\<close> lets the store read them. The text between the
  two is not modelled, nor is the order of the keys of an object.
\<close>

datatype json =
    JNull
  | JBool bool
  | JNum real
  | JStr string
  | JArr "json list"
  | JObj "(string \<times> json) list"

definition opt_prop :: "string \<Rightarrow> string option \<Rightarrow> (string \<times> json) list" where
  "opt_prop k v = (case v of None \<Rightarrow> [] | Some s \<Rightarrow> [(k, JStr s)])"

definition strings_to_json :: "string list \<Rightarrow> json" where
  "strings_to_json xs = JArr (map JStr xs)"

fun method_str :: "PaymentMethod \<Rightarrow> string" where
  "method_str cash = ''cash''"
| "method_str card = ''card''"
| "method_str insurance = ''insurance''"
| "method_str transfer = ''transfer''"

definition contact_to_json :: "PatientContact \<Rightarrow> json" where
  "contact_to_json c =
     JObj ([(''phone'', JStr (phone c))]
           @ opt_prop ''email'' (email c)
           @ opt_prop ''address'' (address c)
           @ opt_prop ''emergencyContactName'' (emergencyContactName c)
           @ opt_prop ''emergencyContactPhone'' (emergencyContactPhone c))"

definition patient_to_json :: "Patient \<Rightarrow> json" where
  "patient_to_json p =
     JObj ([(''id'', JStr (id_p p)),
            (''firstName'', JStr (firstName p)),
            (''lastName'', JStr (lastName p)),
            (''gender'', JStr (gender_str (gender p))),
            (''birthDate'', JStr (birthDate p)),
            (''age'', JNum (of_int (age p))),
            (''contact'', contact_to_json (contact p)),
            (''chronicConditions'', strings_to_json (chronicConditions p)),
            (''allergies'', strings_to_json (allergies p))]
           @ opt_prop ''notes'' (notes_p p)
           @ [(''createdAt'', JStr (createdAt_p p)),
              (''updatedAt'', JStr (updatedAt_p p))])"

definition vitals_to_json :: "VisitVitals \<Rightarrow> json" where
  "vitals_to_json v =
     JObj (opt_prop ''bloodPressure'' (bloodPressure v)
           @ opt_prop ''heartRate'' (heartRate v)
           @ opt_prop ''temperature'' (temperature v)
           @ opt_prop ''oxygenSaturation'' (oxygenSaturation v))"

definition visit_to_json :: "Visit \<Rightarrow> json" where
  "visit_to_json v =
     JObj ([(''id'', JStr (id_v v)),
            (''patientId'', JStr (patientId_v v)),
            (''visitDate'', JStr (visitDate v)),
            (''reason'', JStr (reason v)),
            (''complaints'', strings_to_json (complaints v)),
            (''diagnoses'', strings_to_json (diagnoses v))]
           @ opt_prop ''notes'' (notes_v v)
           @ opt_prop ''treatmentPlan'' (treatmentPlan v)
           @ opt_prop ''followUpDate'' (followUpDate v)
           @ [(''vitals'', vitals_to_json (vitals v))]
           @ opt_prop ''attendingPhysician'' (attendingPhysician v)
           @ [(''createdAt'', JStr (createdAt_v v)),
              (''updatedAt'', JStr (updatedAt_v v))])"

definition payment_to_json :: "Payment \<Rightarrow> json" where
  "payment_to_json p =
     JObj ([(''id'', JStr (id_pay p)),
            (''patientId'', JStr (patientId_pay p))]
           @ opt_prop ''visitId'' (visitId p)
           @ [(''amountDue'', JNum (amountDue p)),
              (''amountPaid'', JNum (amountPaid p)),
              (''method'', JStr (method_str (method_pay p)))]
           @ opt_prop ''invoiceNumber'' (invoiceNumber p)
           @ [(''recordedAt'', JStr (recordedAt p)),
              (''updatedAt'', JStr (updatedAt_pay p))]
           @ opt_prop ''notes'' (notes_pay p))"

definition state_to_json :: "ClinicState \<Rightarrow> json" where
  "state_to_json state =
     JObj [(''patients'', JArr (map patient_to_json (patients state))),
           (''visits'', JArr (map visit_to_json (visits state))),
           (''payments'', JArr (map payment_to_json (payments state)))]"

text \<open>
  Reading a document as a \<open>ClinicState\<close>. The store does not check the document; a read
  that would throw (\<open>parsed.patients.map\<close> on something that is no array,
  \<open>contact.phone\<close> on a missing contact) ends in the \<open>catch\<close>. A document that is read
  without a throw but does not have the shape of the types would give a state outside
  the types; the model gives \<open>None\<close> for every document that does not have the shape.
\<close>

fun get_prop :: "json \<Rightarrow> string \<Rightarrow> json option" where
  "get_prop (JObj kvs) k = map_of kvs k"
| "get_prop _ k = None"

definition str_prop :: "json \<Rightarrow> string \<Rightarrow> string option" where
  "str_prop j k = (case get_prop j k of Some (JStr s) \<Rightarrow> Some s | _ \<Rightarrow> None)"

text \<open>An optional string: a missing property and \<open>null\<close> both read as not set
  (\<open>null?.trim()\<close> is \<open>undefined\<close>, and \<open>??\<close> and the truth tests take \<open>null\<close> as
  they take \<open>undefined\<close>).\<close>

definition opt_str_prop :: "json \<Rightarrow> string \<Rightarrow> string option option" where
  "opt_str_prop j k =
     (case get_prop j k of
        None \<Rightarrow> Some None
      | Some JNull \<Rightarrow> Some None
      | Some (JStr s) \<Rightarrow> Some (Some s)
      | _ \<Rightarrow> None)"

definition num_prop :: "json \<Rightarrow> string \<Rightarrow> real option" where
  "num_prop j k = (case get_prop j k of Some (JNum r) \<Rightarrow> Some r | _ \<Rightarrow> None)"

definition as_str :: "json \<Rightarrow> string option" where
  "as_str j = (case j of JStr s \<Rightarrow> Some s | _ \<Rightarrow> None)"

definition strs_prop :: "json \<Rightarrow> string \<Rightarrow> string list option" where
  "strs_prop j k = (case get_prop j k of Some (JArr xs) \<Rightarrow> those (map as_str xs) | _ \<Rightarrow> None)"

definition arr_prop :: "json \<Rightarrow> string \<Rightarrow> json list option" where
  "arr_prop j k = (case get_prop j k of Some (JArr xs) \<Rightarrow> Some xs | _ \<Rightarrow> None)"

definition parse_gender :: "string \<Rightarrow> Gender option" where
  "parse_gender s = (if s = ''male'' then Some male else if s = ''female'' then Some female else None)"

definition parse_method :: "string \<Rightarrow> PaymentMethod option" where
  "parse_method s =
     (if s = ''cash'' then Some cash else if s = ''card'' then Some card
      else if s = ''insurance'' then Some insurance
      else if s = ''transfer'' then Some transfer else None)"

definition parse_contact :: "json \<Rightarrow> PatientContact option" where
  "parse_contact j =
     do { ph \<leftarrow> str_prop j ''phone'';
          em \<leftarrow> opt_str_prop j ''email'';
          ad \<leftarrow> opt_str_prop j ''address'';
          en \<leftarrow> opt_str_prop j ''emergencyContactName'';
          ep \<leftarrow> opt_str_prop j ''emergencyContactPhone'';
          Some \<lparr> phone = ph, email = em, address = ad,
                 emergencyContactName = en, emergencyContactPhone = ep \<rparr> }"

definition parse_patient :: "json \<Rightarrow> Patient option" where
  "parse_patient j =
     do { i \<leftarrow> str_prop j ''id'';
          fn \<leftarrow> str_prop j ''firstName'';
          ln \<leftarrow> str_prop j ''lastName'';
          g \<leftarrow> str_prop j ''gender'' \<bind> parse_gender;
          bd \<leftarrow> str_prop j ''birthDate'';
          a \<leftarrow> num_prop j ''age'';
          c \<leftarrow> get_prop j ''contact'' \<bind> parse_contact;
          cc \<leftarrow> strs_prop j ''chronicConditions'';
          al \<leftarrow> strs_prop j ''allergies'';
          n \<leftarrow> opt_str_prop j ''notes'';
          ca \<leftarrow> str_prop j ''createdAt'';
          ua \<leftarrow> str_prop j ''updatedAt'';
          Some \<lparr> id_p = i, firstName = fn, lastName = ln, gender = g, birthDate = bd,
                 age = \<lfloor>a\<rfloor>, contact = c, chronicConditions = cc, allergies = al,
                 notes_p = n, createdAt_p = ca, updatedAt_p = ua \<rparr> }"

definition parse_vitals :: "json \<Rightarrow> VisitVitals option" where
  "parse_vitals j =
     do { bp \<leftarrow> opt_str_prop j ''bloodPressure'';
          hr \<leftarrow> opt_str_prop j ''heartRate'';
          te \<leftarrow> opt_str_prop j ''temperature'';
          ox \<leftarrow> opt_str_prop j ''oxygenSaturation'';
          Some \<lparr> bloodPressure = bp, heartRate = hr, temperature = te,
                 oxygenSaturation = ox \<rparr> }"

definition parse_visit :: "json \<Rightarrow> Visit option" where
  "parse_visit j =
     do { i \<leftarrow> str_prop j ''id'';
          pid \<leftarrow> str_prop j ''patientId'';
          vd \<leftarrow> str_prop j ''visitDate'';
          re \<leftarrow> str_prop j ''reason'';
          co \<leftarrow> strs_prop j ''complaints'';
          di \<leftarrow> strs_prop j ''diagnoses'';
          n \<leftarrow> opt_str_prop j ''notes'';
          tp \<leftarrow> opt_str_prop j ''treatmentPlan'';
          fu \<leftarrow> opt_str_prop j ''followUpDate'';
          vi \<leftarrow> get_prop j ''vitals'' \<bind> parse_vitals;
          ap \<leftarrow> opt_str_prop j ''attendingPhysician'';
          ca \<leftarrow> str_prop j ''createdAt'';
          ua \<leftarrow> str_prop j ''updatedAt'';
          Some \<lparr> id_v = i, patientId_v = pid, visitDate = vd, reason = re, complaints = co,
                 diagnoses = di, notes_v = n, treatmentPlan = tp, followUpDate = fu,
                 vitals = vi, attendingPhysician = ap, createdAt_v = ca, updatedAt_v = ua \<rparr> }"

definition parse_payment :: "json \<Rightarrow> Payment option" where
  "parse_payment j =
     do { i \<leftarrow> str_prop j ''id'';
          pid \<leftarrow> str_prop j ''patientId'';
          vi \<leftarrow> opt_str_prop j ''visitId'';
          due \<leftarrow> num_prop j ''amountDue'';
          pd \<leftarrow> num_prop j ''amountPaid'';
          m \<leftarrow> str_prop j ''method'' \<bind> parse_method;
          inv \<leftarrow> opt_str_prop j ''invoiceNumber'';
          ra \<leftarrow> str_prop j ''recordedAt'';
          ua \<leftarrow> str_prop j ''updatedAt'';
          n \<leftarrow> opt_str_prop j ''notes'';
          Some \<lparr> id_pay = i, patientId_pay = pid, visitId = vi, amountDue = due,
                 amountPaid = pd, method_pay = m, invoiceNumber = inv, recordedAt = ra,
                 updatedAt_pay = ua, notes_pay = n \<rparr> }"

definition parse_state :: "json \<Rightarrow> ClinicState option" where
  "parse_state j =
     do { ps \<leftarrow> arr_prop j ''patients'' \<bind> (\<lambda>xs. those (map parse_patient xs));
          vs \<leftarrow> arr_prop j ''visits'' \<bind> (\<lambda>xs. those (map parse_visit xs));
          ys \<leftarrow> arr_prop j ''payments'' \<bind> (\<lambda>xs. those (map parse_payment xs));
          Some \<lparr> patients = ps, visits = vs, payments = ys \<rparr> }"

text \<open>
  The browser side of \<open>loadInitialState\<close>: there is no \<open>window\<close> (server rendering), or
  there is one and the entry \<open>clinic-state-v1\<close> of its local storage is missing or
  empty (\<open>NoItem\<close>), is no JSON text (\<open>Unparsable\<close>), or holds a document.
\<close>

datatype stored_item = NoItem | Unparsable | Parsed json

datatype window = NoWindow | Window stored_item

definition loadInitialState :: "env \<Rightarrow> window \<Rightarrow> ClinicState" where
  "loadInitialState E w =
     (case w of
        NoWindow \<Rightarrow> INITIAL_CLINIC_STATE E
      | Window stored \<Rightarrow>
          (case stored of
             NoItem \<Rightarrow> INITIAL_CLINIC_STATE E
           | Unparsable \<Rightarrow> INITIAL_CLINIC_STATE E
           | Parsed j \<Rightarrow>
               (case parse_state j of
                  None \<Rightarrow> INITIAL_CLINIC_STATE E
                | Some parsed \<Rightarrow>
                    parsed\<lparr>patients :=
                      map (\<lambda>patient. patient\<lparr>age := calculateAge E (birthDate patient),
                                               contact := sanitizeContact (contact patient)\<rparr>)
                        (patients parsed)\<rparr>)))"

text \<open>The effect of the provider that runs after every change of the state:
  \<open>window.localStorage.setItem(STORAGE_KEY, JSON.stringify(state))\<close>.\<close>

definition persist :: "window \<Rightarrow> ClinicState \<Rightarrow> window" where
  "persist w state =
     (case w of NoWindow \<Rightarrow> NoWindow | Window stored \<Rightarrow> Window (Parsed (state_to_json state)))"

text \<open>The states the provider can hold: the state it starts with, in any environment
  and with any content of the storage, and the states its six operations lead to.\<close>

inductive reachable :: "ClinicState \<Rightarrow> bool" where
  start: "reachable (loadInitialState E w)"
| patient_added: "reachable s \<Longrightarrow> reachable (snd (addPatient E s np))"
| patient_updated: "reachable s \<Longrightarrow> reachable (snd (updatePatient E s i up))"
| visit_added: "reachable s \<Longrightarrow> reachable (snd (addVisit E s nv))"
| visit_updated: "reachable s \<Longrightarrow> reachable (snd (updateVisit E s i uv))"
| payment_added: "reachable s \<Longrightarrow> reachable (snd (addPayment E s ny))"
| payment_updated: "reachable s \<Longrightarrow> reachable (snd (updatePayment E s i uy))"

text \<open>The contact of every patient is one that \<open>sanitizeContact\<close> leaves as it is.\<close>

definition contactsSanitized :: "ClinicState \<Rightarrow> bool" where
  "contactsSanitized s = list_all (\<lambda>p. sanitizeContact (contact p) = contact p) (patients s)"

section \<open>Reference definitions, in the words of the specification\<close>

text \<open>The age a caller computes on its own from two calendar dates (year, month, day),
  today's and the birth date: the difference of the years, less one while this year's
  birthday is still ahead.\<close>

definition age_on :: "int \<times> int \<times> int \<Rightarrow> int \<times> int \<times> int \<Rightarrow> int" where
  "age_on today birth =
     (case (today, birth) of
        ((ty, tm, td), (by, bm, bd)) \<Rightarrow> ty - by - (if (tm, td) < (bm, bd) then 1 else 0))"

text \<open>A string of white space only (the empty string is one).\<close>

definition blank :: "string \<Rightarrow> bool" where
  "blank s = list_all js_whitespace s"

text \<open>The partial \<open>{}\<close>.\<close>

definition emptyPatientUpdate :: UpdatePatientInput where
  "emptyPatientUpdate =
     \<lparr> up_firstName = None, up_lastName = None, up_gender = None, up_birthDate = None,
       up_contact = None, up_chronicConditions = None, up_allergies = None,
       up_notes = Absent \<rparr>"

section \<open>An environment for the worked examples: a browser in the UTC time zone\<close>

text \<open>Days since 1970-01-01 of a date of the Gregorian calendar, and back.\<close>

definition days_from_civil :: "int \<Rightarrow> int \<Rightarrow> int \<Rightarrow> int" where
  "days_from_civil y m d =
     (let y' = (if m \<le> 2 then y - 1 else y);
          era = y' div 400;
          yoe = y' - era * 400;
          doy = (153 * (if m > 2 then m - 3 else m + 9) + 2) div 5 + d - 1;
          doe = yoe * 365 + yoe div 4 - yoe div 100 + doy
      in era * 146097 + doe - 719468)"

definition civil_from_days :: "int \<Rightarrow> int \<times> int \<times> int" where
  "civil_from_days z =
     (let z' = z + 719468;
          era = z' div 146097;
          doe = z' - era * 146097;
          yoe = (doe - doe div 1460 + doe div 36524 - doe div 146096) div 365;
          doy = doe - (365 * yoe + yoe div 4 - yoe div 100);
          mp = (5 * doy + 2) div 153;
          d = doy - (153 * mp + 2) div 5 + 1;
          m = (if mp < 10 then mp + 3 else mp - 9)
      in (if m \<le> 2 then yoe + era * 400 + 1 else yoe + era * 400, m, d))"

definition digits_val :: "string \<Rightarrow> int" where
  "digits_val s = foldl (\<lambda>acc c. 10 * acc + (of_char c - 48)) 0 s"

text \<open>\<open>YYYY-MM-DD\<close>, or \<open>YYYY-MM-DDTHH:mm:ss.sssZ\<close>; both are read as UTC.\<close>

definition utc_parse :: "string \<Rightarrow> int" where
  "utc_parse s =
     days_from_civil (digits_val (take 4 s)) (digits_val (take 2 (drop 5 s)))
         (digits_val (take 2 (drop 8 s))) * msInDay
       + digits_val (take 2 (drop 11 s)) * 3600000
       + digits_val (take 2 (drop 14 s)) * 60000
       + digits_val (take 2 (drop 17 s)) * 1000
       + digits_val (take 3 (drop 20 s))"

definition utc_env :: "string \<Rightarrow> string \<Rightarrow> env" where
  "utc_env stamp uuid =
     \<lparr> now = utc_parse stamp,
       nowIso = stamp,
       parseDate = utc_parse,
       getFullYear = (\<lambda>t. fst (civil_from_days (t div msInDay))),
       getMonth = (\<lambda>t. fst (snd (civil_from_days (t div msInDay))) - 1),
       getDate = (\<lambda>t. snd (snd (civil_from_days (t div msInDay)))),
       startOfDay = (\<lambda>t. t - t mod msInDay),
       randomId = uuid \<rparr>"

text \<open>The reference date of the scenarios, 1 November 2025, and an hour later.\<close>

definition env1 :: env where
  "env1 = utc_env ''2025-11-01T09:30:00.000Z'' ''0b0e7d5c-6a41-4a0e-9a51-1f2f6c3d9e10''"

definition env2 :: env where
  "env2 = utc_env ''2025-11-01T10:30:00.000Z'' ''7c9a2f1e-3b58-4c6d-8e07-5a4b3c2d1e0f''"

definition amani :: NewPatientInput where
  "amani =
     \<lparr> np_firstName = ''Amani'', np_lastName = ''Youssef'', np_gender = female,
       np_birthDate = ''1988-02-14'',
       np_contact = \<lparr> phone = ''0771234567'', email = Some ''  '',
                      address = Some ''Khalda, Amman'', emergencyContactName = Some [],
                      emergencyContactPhone = None \<rparr>,
       np_chronicConditions = [''Hypertension'', ''Asthma''], np_allergies = [''Penicillin''],
       np_notes = None \<rparr>"

text \<open>A partial that moves the follow-up of a visit, and one that records a payment
  above the amount due.\<close>

definition reschedule :: UpdateVisitInput where
  "reschedule =
     \<lparr> uv_visitDate = None, uv_reason = None, uv_complaints = None, uv_diagnoses = None,
       uv_notes = Absent, uv_treatmentPlan = Absent, uv_followUpDate = Value ''2025-11-17'',
       uv_vitals = None, uv_attendingPhysician = Absent \<rparr>"

definition overpay :: UpdatePaymentInput where
  "overpay =
     \<lparr> uy_visitId = Absent, uy_amountDue = None, uy_amountPaid = Some 5000,
       uy_method = None, uy_invoiceNumber = Absent, uy_updatedAt = None,
       uy_notes = Undefined \<rparr>"

text \<open>A visit without a follow-up date.\<close>

definition walkIn :: Visit where
  "walkIn =
     \<lparr> id_v = ''visit-omar-2'', patientId_v = ''pat-omar-salem'', visitDate = ''2025-10-30'',
       reason = ''Walk-in'', complaints = [''Cough''], diagnoses = [''Bronchitis''],
       notes_v = None, treatmentPlan = None, followUpDate = None,
       vitals = \<lparr> bloodPressure = None, heartRate = None, temperature = None,
                  oxygenSaturation = None \<rparr>,
       attendingPhysician = None,
       createdAt_v = ''2025-10-30T08:00:00.000Z'', updatedAt_v = ''2025-10-30T08:00:00.000Z'' \<rparr>"

section \<open>Browsers in other time zones, and the calendar of the specification\<close>

text \<open>
  A browser whose local time is UTC plus a fixed offset (in milliseconds, east of
  Greenwich positive; no change of the offset in the days involved). ECMAScript reads a
  date-only string (\<open>YYYY-MM-DD\<close>) as midnight UTC of that date, whereas
  \<open>getFullYear\<close>, \<open>getMonth\<close>, \<open>getDate\<close> and \<open>setHours\<close> work in local time.
  \<open>utc_env\<close> is the browser with offset 0.
\<close>

definition zone_env :: "int \<Rightarrow> string \<Rightarrow> string \<Rightarrow> env" where
  "zone_env offset stamp uuid =
     \<lparr> now = utc_parse stamp,
       nowIso = stamp,
       parseDate = utc_parse,
       getFullYear = (\<lambda>t. fst (civil_from_days ((t + offset) div msInDay))),
       getMonth = (\<lambda>t. fst (snd (civil_from_days ((t + offset) div msInDay))) - 1),
       getDate = (\<lambda>t. snd (snd (civil_from_days ((t + offset) div msInDay)))),
       startOfDay = (\<lambda>t. t - (t + offset) mod msInDay),
       randomId = uuid \<rparr>"

text \<open>Noon of 1 November 2025 in a browser five hours west of UTC (17:00 UTC).\<close>

definition env_west :: env where
  "env_west = zone_env (- 5 * 3600000) ''2025-11-01T17:00:00.000Z''
                ''5d1c8a52-0f3e-4b7a-9c64-2e8b7a6d4f31''"

text \<open>
  The calendar as the specification speaks of it. \<open>dateOf\<close> is the date a date-only
  string names (year, month from 1, day), \<open>localDate\<close> the date the browser shows for
  an instant, \<open>literalDayDelta\<close> the number of days from one date to another.
\<close>

definition dateOf :: "string \<Rightarrow> int \<times> int \<times> int" where
  "dateOf s =
     (digits_val (take 4 s), digits_val (take 2 (drop 5 s)), digits_val (take 2 (drop 8 s)))"

definition dayNumber :: "int \<times> int \<times> int \<Rightarrow> int" where
  "dayNumber date = (case date of (y, m, d) \<Rightarrow> days_from_civil y m d)"

definition literalDayDelta :: "int \<times> int \<times> int \<Rightarrow> int \<times> int \<times> int \<Rightarrow> int" where
  "literalDayDelta today target = dayNumber target - dayNumber today"

definition localDate :: "env \<Rightarrow> int \<Rightarrow> int \<times> int \<times> int" where
  "localDate E t = (getFullYear E t, getMonth E t + 1, getDate E t)"

text \<open>A patient born on 2 November 2000, and a partial whose birth date is the empty
  string.\<close>

definition bornNov2 :: NewPatientInput where
  "bornNov2 =
     \<lparr> np_firstName = ''Sami'', np_lastName = ''Haddad'', np_gender = male,
       np_birthDate = ''2000-11-02'',
       np_contact = \<lparr> phone = ''0790000000'', email = None, address = None,
                      emergencyContactName = None, emergencyContactPhone = None \<rparr>,
       np_chronicConditions = [], np_allergies = [], np_notes = None \<rparr>"


section \<open>Lemmas on lists\<close>

lemma find_in_set: "find P xs = Some x \<Longrightarrow> x \<in> set xs \<and> P x"
  by (induction xs) (auto split: if_splits)

lemma find_absent: "i \<notin> f ` set xs \<Longrightarrow> find (\<lambda>x. f x = i) xs = None"
  by (induction xs) auto

lemma find_after_replace:
  "find (\<lambda>x. f x = i) xs = Some e \<Longrightarrow> f q = i \<Longrightarrow>
   find (\<lambda>x. f x = i) (map (\<lambda>x. if f x = f q then q else x) xs) = Some q"
  by (induction xs) (auto split: if_splits)

lemma replaced_with_id:
  "x \<in> set (map (\<lambda>x. if f x = f q then q else x) xs) \<Longrightarrow> f x = f q \<Longrightarrow> x = q"
  by (induction xs) (auto split: if_splits)

lemma replace_keeps_ids: "map f (map (\<lambda>x. if f x = f q then q else x) xs) = map f xs"
  by (induction xs) auto

section \<open>Payments: balance and status\<close>

text \<open>
  Claim C1. For every payment of the state, the row that the payments page derives for
  it has the balance \<open>max (amountDue - amountPaid) 0\<close> and the status \<open>paid\<close> when
  \<open>amountDue - amountPaid \<le> 0\<close>, else \<open>pending\<close> when \<open>amountPaid = 0\<close>, else
  \<open>partial\<close>; the analytics page derives the same status; and the status is \<open>paid\<close>
  exactly when the balance is 0. The witness is the seed payment with 1200 due and 800
  paid: balance 400, status \<open>partial\<close>.
\<close>

theorem C1_balance_and_status:
  "p \<in> set (payments state) \<Longrightarrow>
     paymentRow state p \<in> set (paymentRows E state)
     \<and> row_balance (paymentRow state p) = max (amountDue p - amountPaid p) 0
     \<and> row_status (paymentRow state p) =
         (if amountDue p - amountPaid p \<le> 0 then paid
          else if amountPaid p = 0 then pending else partial)
     \<and> getPaymentStatus_analytics (amountDue p) (amountPaid p) = row_status (paymentRow state p)
     \<and> (row_status (paymentRow state p) = paid \<longleftrightarrow> row_balance (paymentRow state p) = 0)"
  by (auto simp: paymentRows_def paymentRow_def getPaymentStatus_def
        getPaymentStatus_analytics_def Let_def max_def)

theorem C1_balance_and_status_witness:
  "hd paymentsSeed \<in> set (payments (INITIAL_CLINIC_STATE env1))
   \<and> amountDue (hd paymentsSeed) = 1200 \<and> amountPaid (hd paymentsSeed) = 800
   \<and> row_balance (paymentRow (INITIAL_CLINIC_STATE env1) (hd paymentsSeed)) = 400
   \<and> row_status (paymentRow (INITIAL_CLINIC_STATE env1) (hd paymentsSeed)) = partial"
proof -
  have h: "hd paymentsSeed \<in> set (payments (INITIAL_CLINIC_STATE env1))"
    by (simp add: INITIAL_CLINIC_STATE_def paymentsSeed_def)
  show ?thesis
    using h C1_balance_and_status [OF h, of env1]
    by (simp add: paymentsSeed_def)
qed

section \<open>The reducer\<close>

text \<open>
  Claim C10. Every action of the reducer changes its own collection only. An \<open>ADD\<close>
  appends the one record at the end. An \<open>UPDATE\<close> keeps the length of its collection
  and the id at every position, and each position holds the payload when its id is the
  payload's and the record it held before otherwise.
\<close>

theorem C10_reducer_frame:
  "(let s' = clinicReducer s (ADD_PATIENT p) in
      patients s' = patients s @ [p] \<and> visits s' = visits s \<and> payments s' = payments s)
   \<and> (let s' = clinicReducer s (ADD_VISIT v) in
      visits s' = visits s @ [v] \<and> patients s' = patients s \<and> payments s' = payments s)
   \<and> (let s' = clinicReducer s (ADD_PAYMENT y) in
      payments s' = payments s @ [y] \<and> patients s' = patients s \<and> visits s' = visits s)
   \<and> (let s' = clinicReducer s (UPDATE_PATIENT p) in
      length (patients s') = length (patients s)
      \<and> map id_p (patients s') = map id_p (patients s)
      \<and> (\<forall>k < length (patients s).
            patients s' ! k = (if id_p (patients s ! k) = id_p p then p else patients s ! k))
      \<and> visits s' = visits s \<and> payments s' = payments s)
   \<and> (let s' = clinicReducer s (UPDATE_VISIT v) in
      length (visits s') = length (visits s)
      \<and> map id_v (visits s') = map id_v (visits s)
      \<and> (\<forall>k < length (visits s).
            visits s' ! k = (if id_v (visits s ! k) = id_v v then v else visits s ! k))
      \<and> patients s' = patients s \<and> payments s' = payments s)
   \<and> (let s' = clinicReducer s (UPDATE_PAYMENT y) in
      length (payments s') = length (payments s)
      \<and> map id_pay (payments s') = map id_pay (payments s)
      \<and> (\<forall>k < length (payments s).
            payments s' ! k = (if id_pay (payments s ! k) = id_pay y then y else payments s ! k))
      \<and> patients s' = patients s \<and> visits s' = visits s)"
  by (simp add: Let_def replace_keeps_ids)

theorem C10_reducer_frame_witness:
  "(0::nat) < length (patients (INITIAL_CLINIC_STATE env1))
   \<and> id_p (patients (INITIAL_CLINIC_STATE env1) ! 0) = id_p (hd (patientsSeed env2))
   \<and> patients (clinicReducer (INITIAL_CLINIC_STATE env1)
                 (UPDATE_PATIENT (hd (patientsSeed env2)))) ! 0 = hd (patientsSeed env2)
   \<and> length (patients (clinicReducer (INITIAL_CLINIC_STATE env1)
                 (UPDATE_PATIENT (hd (patientsSeed env2))))) = 3"
proof -
  have h: "(0::nat) < length (patients (INITIAL_CLINIC_STATE env1))"
    by (simp add: INITIAL_CLINIC_STATE_def patientsSeed_def)
  have i: "id_p (patients (INITIAL_CLINIC_STATE env1) ! 0) = id_p (hd (patientsSeed env2))"
    by (simp add: INITIAL_CLINIC_STATE_def patientsSeed_def)
  have n: "length (patients (INITIAL_CLINIC_STATE env1)) = 3"
    by (simp add: INITIAL_CLINIC_STATE_def patientsSeed_def)
  from C10_reducer_frame [where s = "INITIAL_CLINIC_STATE env1" and p = "hd (patientsSeed env2)"]
  have "length (patients (clinicReducer (INITIAL_CLINIC_STATE env1)
                  (UPDATE_PATIENT (hd (patientsSeed env2)))))
          = length (patients (INITIAL_CLINIC_STATE env1))"
    and "\<forall>k < length (patients (INITIAL_CLINIC_STATE env1)).
           patients (clinicReducer (INITIAL_CLINIC_STATE env1)
                       (UPDATE_PATIENT (hd (patientsSeed env2)))) ! k
             = (if id_p (patients (INITIAL_CLINIC_STATE env1) ! k) = id_p (hd (patientsSeed env2))
                then hd (patientsSeed env2) else patients (INITIAL_CLINIC_STATE env1) ! k)"
    unfolding Let_def by blast+
  with h i n show ?thesis by simp
qed

section \<open>Updates\<close>

text \<open>
  Claim C6. When no record of the collection has the id, \<open>updatePatient\<close>,
  \<open>updateVisit\<close> and \<open>updatePayment\<close> return \<open>undefined\<close> (they have no path that
  throws) and leave the whole state as it was, whatever the partial is.
\<close>

theorem C6_update_of_missing_id:
  "(i \<notin> id_p ` set (patients s) \<longrightarrow> updatePatient E s i up = (None, s))
   \<and> (i \<notin> id_v ` set (visits s) \<longrightarrow> updateVisit E s i uv = (None, s))
   \<and> (i \<notin> id_pay ` set (payments s) \<longrightarrow> updatePayment E s i uy = (None, s))"
  by (simp add: updatePatient_def updateVisit_def updatePayment_def find_absent)

theorem C6_update_of_missing_id_witness:
  "''pat-nobody'' \<notin> id_p ` set (patients (INITIAL_CLINIC_STATE env1))
   \<and> updatePatient env2 (INITIAL_CLINIC_STATE env1) ''pat-nobody'' emptyPatientUpdate
       = (None, INITIAL_CLINIC_STATE env1)
   \<and> ''pat-nobody'' \<notin> id_v ` set (visits (INITIAL_CLINIC_STATE env1))
   \<and> updateVisit env2 (INITIAL_CLINIC_STATE env1) ''pat-nobody'' reschedule
       = (None, INITIAL_CLINIC_STATE env1)
   \<and> ''pat-nobody'' \<notin> id_pay ` set (payments (INITIAL_CLINIC_STATE env1))
   \<and> updatePayment env2 (INITIAL_CLINIC_STATE env1) ''pat-nobody'' overpay
       = (None, INITIAL_CLINIC_STATE env1)"
proof -
  have h1: "''pat-nobody'' \<notin> id_p ` set (patients (INITIAL_CLINIC_STATE env1))"
    by (simp add: INITIAL_CLINIC_STATE_def patientsSeed_def)
  have h2: "''pat-nobody'' \<notin> id_v ` set (visits (INITIAL_CLINIC_STATE env1))"
    by (simp add: INITIAL_CLINIC_STATE_def visitsSeed_def)
  have h3: "''pat-nobody'' \<notin> id_pay ` set (payments (INITIAL_CLINIC_STATE env1))"
    by (simp add: INITIAL_CLINIC_STATE_def paymentsSeed_def)
  show ?thesis
    using h1 h2 h3
      C6_update_of_missing_id [of "''pat-nobody''" "INITIAL_CLINIC_STATE env1" env2
        emptyPatientUpdate reschedule overpay]
    by blast
qed

text \<open>
  Claim C3. When the id is the id of a payment of the state and the partial gives an
  \<open>amountPaid\<close> above the amount due (the one the partial gives, or the stored one),
  \<open>updatePayment\<close> returns the updated payment with that \<open>amountPaid\<close>; the payment is
  in the state afterwards, the payments page then derives a row for it, with balance
  0, and every row the page derives for the id is a row of this payment with balance
  0.
\<close>

theorem C3_overpayment_accepted:
  assumes "find (\<lambda>payment. id_pay payment = i) (payments s) = Some existing"
    and "uy_amountPaid data = Some paid'"
    and "or_existing (uy_amountDue data) (amountDue existing) < paid'"
  shows "\<exists>p'. updatePayment E s i data = (Some p', clinicReducer s (UPDATE_PAYMENT p'))
           \<and> id_pay p' = i \<and> amountPaid p' = paid' \<and> amountDue p' < amountPaid p'
           \<and> p' \<in> set (payments (clinicReducer s (UPDATE_PAYMENT p')))
           \<and> paymentRow (clinicReducer s (UPDATE_PAYMENT p')) p'
                \<in> set (paymentRows E' (clinicReducer s (UPDATE_PAYMENT p')))
           \<and> row_payment (paymentRow (clinicReducer s (UPDATE_PAYMENT p')) p') = p'
           \<and> row_balance (paymentRow (clinicReducer s (UPDATE_PAYMENT p')) p') = 0
           \<and> (\<forall>r \<in> set (paymentRows E' (clinicReducer s (UPDATE_PAYMENT p'))).
                 id_pay (row_payment r) = i \<longrightarrow> row_payment r = p' \<and> row_balance r = 0)"
proof -
  from assms(1) have ex: "existing \<in> set (payments s)" "id_pay existing = i"
    using find_in_set [of "\<lambda>payment. id_pay payment = i" "payments s" existing] by auto
  define p' where "p' = \<lparr> id_pay = id_pay existing,
                   patientId_pay = patientId_pay existing,
                   visitId = spread (visitId existing) (uy_visitId data),
                   amountDue = or_existing (uy_amountDue data) (amountDue existing),
                   amountPaid = or_existing (uy_amountPaid data) (amountPaid existing),
                   method_pay = or_existing (uy_method data) (method_pay existing),
                   invoiceNumber = coalesce (uy_invoiceNumber data) (invoiceNumber existing),
                   recordedAt = recordedAt existing,
                   updatedAt_pay = nowIso E,
                   notes_pay = coalesce (uy_notes data) (notes_pay existing) \<rparr>"
  have upd: "updatePayment E s i data = (Some p', clinicReducer s (UPDATE_PAYMENT p'))"
    using assms(1) by (simp add: updatePayment_def p'_def Let_def)
  have fields: "id_pay p' = i" "amountPaid p' = paid'" "amountDue p' < amountPaid p'"
    using assms(2,3) ex(2) by (simp_all add: p'_def or_existing_def)
  define S where "S = clinicReducer s (UPDATE_PAYMENT p')"
  have pS: "payments S = map (\<lambda>payment. if id_pay payment = id_pay p' then p' else payment)
                           (payments s)"
    by (simp add: S_def)
  have mem: "p' \<in> set (payments S)"
    unfolding pS using ex fields(1) by (auto simp: image_iff intro!: bexI [of _ existing])
  have row: "paymentRow S p' \<in> set (paymentRows E' S)"
    using mem by (simp add: paymentRows_def)
  have own: "row_payment (paymentRow S p') = p'" "row_balance (paymentRow S p') = 0"
    using fields(3) by (simp_all add: paymentRow_def)
  have rows: "\<forall>r \<in> set (paymentRows E' S).
                 id_pay (row_payment r) = i \<longrightarrow> row_payment r = p' \<and> row_balance r = 0"
  proof (intro ballI impI)
    fix r assume r: "r \<in> set (paymentRows E' S)"
      and ri: "id_pay (row_payment r) = i"
    from r have "r \<in> paymentRow S ` set (payments S)"
      by (simp add: paymentRows_def)
    then obtain y where y: "y \<in> set (payments S)" and ry: "r = paymentRow S y"
      by blast
    have "row_payment r = y" using ry by (simp add: paymentRow_def)
    with ri have "id_pay y = id_pay p'" using fields(1) by simp
    with y have "y = p'"
      unfolding pS using replaced_with_id [of y id_pay p' "payments s"] by simp
    with ry fields(3) show "row_payment r = p' \<and> row_balance r = 0"
      by (simp add: paymentRow_def)
  qed
  note mem = mem [unfolded S_def] and rows = rows [unfolded S_def]
    and row = row [unfolded S_def] and own = own [unfolded S_def]
  from upd fields mem row own rows show ?thesis by blast
qed

theorem C3_overpayment_accepted_witness:
  "find (\<lambda>payment. id_pay payment = ''pay-amani-1'') (payments (INITIAL_CLINIC_STATE env1))
     = Some (hd paymentsSeed)
   \<and> uy_amountPaid overpay = Some 5000
   \<and> or_existing (uy_amountDue overpay) (amountDue (hd paymentsSeed)) < 5000
   \<and> (\<exists>p'. updatePayment env2 (INITIAL_CLINIC_STATE env1) ''pay-amani-1'' overpay
              = (Some p', clinicReducer (INITIAL_CLINIC_STATE env1) (UPDATE_PAYMENT p'))
            \<and> amountPaid p' = 5000
            \<and> paymentRow (clinicReducer (INITIAL_CLINIC_STATE env1) (UPDATE_PAYMENT p')) p'
                 \<in> set (paymentRows env2
                          (clinicReducer (INITIAL_CLINIC_STATE env1) (UPDATE_PAYMENT p')))
            \<and> row_balance (paymentRow (clinicReducer (INITIAL_CLINIC_STATE env1)
                                         (UPDATE_PAYMENT p')) p') = 0)"
proof -
  have h1: "find (\<lambda>payment. id_pay payment = ''pay-amani-1'')
              (payments (INITIAL_CLINIC_STATE env1)) = Some (hd paymentsSeed)"
    by (simp add: INITIAL_CLINIC_STATE_def paymentsSeed_def)
  have h2: "uy_amountPaid overpay = Some 5000"
    by (simp add: overpay_def)
  have h3: "or_existing (uy_amountDue overpay) (amountDue (hd paymentsSeed)) < 5000"
    by (simp add: overpay_def or_existing_def paymentsSeed_def)
  from C3_overpayment_accepted [OF h1 h2 h3, of env2 env2]
  obtain p' where
    "updatePayment env2 (INITIAL_CLINIC_STATE env1) ''pay-amani-1'' overpay
       = (Some p', clinicReducer (INITIAL_CLINIC_STATE env1) (UPDATE_PAYMENT p'))"
    "amountPaid p' = 5000"
    "paymentRow (clinicReducer (INITIAL_CLINIC_STATE env1) (UPDATE_PAYMENT p')) p'
       \<in> set (paymentRows env2 (clinicReducer (INITIAL_CLINIC_STATE env1) (UPDATE_PAYMENT p')))"
    "row_balance (paymentRow (clinicReducer (INITIAL_CLINIC_STATE env1)
                                (UPDATE_PAYMENT p')) p') = 0"
    by blast
  then show ?thesis
    using h1 h2 h3 by blast
qed

section \<open>Adding and updating a patient\<close>

lemma dropWhile_all_iff: "(\<forall>x \<in> set (dropWhile P xs). P x) \<longleftrightarrow> (\<forall>x \<in> set xs. P x)"
  by (induction xs) auto

lemma trim_empty_iff: "trim s = [] \<longleftrightarrow> blank s"
proof -
  have "trim s = [] \<longleftrightarrow> (\<forall>x \<in> set (dropWhile js_whitespace s). js_whitespace x)"
    by (simp add: trim_def)
  then show ?thesis
    by (simp add: dropWhile_all_iff blank_def list_all_iff)
qed

lemma keepIfNotBlank_eq:
  "keepIfNotBlank x = (case x of None \<Rightarrow> None | Some s \<Rightarrow> if blank s then None else Some s)"
  by (simp add: keepIfNotBlank_def trim_empty_iff split: option.splits)

text \<open>What \<open>addPatient\<close> does in every environment: the age is the value of
  \<open>calculateAge\<close>, the two timestamps are equal, an optional contact property that is
  unset, empty or white space only is unset and any other is kept, and the record is
  appended.\<close>

lemma addPatient_record:
  "addPatient E s d = (p, s') \<Longrightarrow>
     age p = calculateAge E (np_birthDate d)
     \<and> createdAt_p p = updatedAt_p p
     \<and> phone (contact p) = phone (np_contact d)
     \<and> email (contact p) =
         (case email (np_contact d) of
            None \<Rightarrow> None | Some x \<Rightarrow> if blank x then None else Some x)
     \<and> address (contact p) =
         (case address (np_contact d) of
            None \<Rightarrow> None | Some x \<Rightarrow> if blank x then None else Some x)
     \<and> emergencyContactName (contact p) =
         (case emergencyContactName (np_contact d) of
            None \<Rightarrow> None | Some x \<Rightarrow> if blank x then None else Some x)
     \<and> emergencyContactPhone (contact p) =
         (case emergencyContactPhone (np_contact d) of
            None \<Rightarrow> None | Some x \<Rightarrow> if blank x then None else Some x)
     \<and> patients s' = patients s @ [p]
     \<and> visits s' = visits s \<and> payments s' = payments s"
  by (auto simp: addPatient_def Let_def sanitizeContact_def keepIfNotBlank_eq)

lemma no_break_space_is_blank: "blank [CHR 0xA0] \<and> keepIfNotBlank (Some [CHR 0xA0]) = None"
  by (simp add: keepIfNotBlank_eq blank_def js_whitespace_def)

text \<open>The age function compares the dates the browser shows for the two instants it
  reads: the clock, and midnight UTC of the birth date.\<close>

lemma calculateAge_local:
  "calculateAge E b = age_on (localDate E (now E)) (localDate E (parseDate E b))"
  by (auto simp: calculateAge_def age_on_def localDate_def Let_def)

lemma utc_parse_date_only: "length s = 10 \<Longrightarrow> utc_parse s = dayNumber (dateOf s) * msInDay"
  by (simp add: utc_parse_def dateOf_def dayNumber_def digits_val_def)

lemma localDate_zone:
  "localDate (zone_env off stamp uuid) t = civil_from_days ((t + off) div msInDay)"
  by (simp add: localDate_def zone_env_def)

lemma local_day_east:
  "0 \<le> off \<Longrightarrow> off < msInDay \<Longrightarrow> (D * msInDay + off) div msInDay = D"
  by (simp add: msInDay_def)

lemma local_day_west:
  assumes "- msInDay \<le> off" and "off < 0"
  shows "(D * msInDay + off) div msInDay = D - 1"
proof -
  have eq: "D * msInDay + off = (D - 1) * msInDay + (off + msInDay)"
    by (simp add: algebra_simps)
  have "((D - 1) * msInDay + (off + msInDay)) div msInDay = D - 1"
    by (rule local_day_east) (use assms in simp_all)
  then show ?thesis
    by (simp only: eq)
qed

text \<open>At or east of UTC the birth date is read as the date it names; west of UTC it is
  read as the day before. The \<open>civil_from_days\<close> of a day number is the date of that
  day.\<close>

lemma calculateAge_zone:
  "calculateAge (zone_env off stamp uuid) b
     = age_on (localDate (zone_env off stamp uuid) (utc_parse stamp))
         (civil_from_days ((utc_parse b + off) div msInDay))"
proof -
  have n: "now (zone_env off stamp uuid) = utc_parse stamp"
    "parseDate (zone_env off stamp uuid) b = utc_parse b"
    by (simp_all add: zone_env_def)
  show ?thesis
    by (simp only: calculateAge_local n localDate_zone)
qed

lemma calculateAge_east_of_utc:
  assumes "length b = 10" and "0 \<le> off" and "off < msInDay"
  shows "calculateAge (zone_env off stamp uuid) b
           = age_on (localDate (zone_env off stamp uuid) (utc_parse stamp))
               (civil_from_days (dayNumber (dateOf b)))"
proof -
  have "(utc_parse b + off) div msInDay = dayNumber (dateOf b)"
    using assms by (simp only: utc_parse_date_only local_day_east)
  then show ?thesis
    by (simp only: calculateAge_zone)
qed

lemma calculateAge_west_of_utc:
  assumes "length b = 10" and "- msInDay \<le> off" and "off < 0"
  shows "calculateAge (zone_env off stamp uuid) b
           = age_on (localDate (zone_env off stamp uuid) (utc_parse stamp))
               (civil_from_days (dayNumber (dateOf b) - 1))"
proof -
  have "(utc_parse b + off) div msInDay = dayNumber (dateOf b) - 1"
    using assms by (simp only: utc_parse_date_only local_day_west)
  then show ?thesis
    by (simp only: calculateAge_zone)
qed

text \<open>
  Claim C4 says that the age of the record \<open>addPatient\<close> returns is the age computed on
  its own from the birth date of the input and the current date (with equal
  timestamps, sanitized contact and the record appended, which \<open>addPatient_record\<close>
  gives). In a browser west of UTC the code is a year ahead on the eve of a birthday:
  at noon of 1 November 2025, five hours west of UTC, a patient born on 2 November
  2000 is 24 by the calendar, and \<open>addPatient\<close> returns the age 25.
\<close>

theorem C4_age_west_of_utc:
  "localDate env_west (now env_west) = (2025, 11, 1)
   \<and> np_birthDate bornNov2 = ''2000-11-02''
   \<and> dateOf (np_birthDate bornNov2) = (2000, 11, 2)
   \<and> age_on (2025, 11, 1) (2000, 11, 2) = 24
   \<and> age (fst (addPatient env_west (INITIAL_CLINIC_STATE env_west) bornNov2)) = 25
   \<and> age (last (patients (snd (addPatient env_west (INITIAL_CLINIC_STATE env_west) bornNov2))))
       = 25"
proof -
  have a: "localDate env_west (now env_west) = (2025, 11, 1)"
    by code_simp
  have b: "np_birthDate bornNov2 = ''2000-11-02''"
    by (simp add: bornNov2_def)
  have c: "dateOf ''2000-11-02'' = (2000, 11, 2)"
    by code_simp
  have d: "age_on (2025, 11, 1) (2000, 11, 2) = 24"
    by code_simp
  have e: "calculateAge env_west ''2000-11-02'' = 25"
    by code_simp
  have f: "age (fst (addPatient env_west (INITIAL_CLINIC_STATE env_west) bornNov2)) = 25"
    using e by (simp add: addPatient_def Let_def b)
  have g: "age (last (patients (snd (addPatient env_west (INITIAL_CLINIC_STATE env_west)
             bornNov2)))) = 25"
    using e by (simp add: addPatient_def Let_def b)
  from a b c d f g show ?thesis by simp
qed


text \<open>With the partial \<open>{}\<close> the record returned and stored is the stored one with
  \<open>updatedAt\<close> set to the clock; a second call on the state after the first gives the
  same record but for \<open>updatedAt\<close>.\<close>

lemma updatePatient_empty_twice:
  assumes "find (\<lambda>patient. id_p patient = i) (patients s) = Some existing"
  shows "updatePatient E s i emptyPatientUpdate
           = (Some (existing\<lparr>updatedAt_p := nowIso E\<rparr>),
              clinicReducer s (UPDATE_PATIENT (existing\<lparr>updatedAt_p := nowIso E\<rparr>)))
         \<and> updatePatient E' (clinicReducer s (UPDATE_PATIENT (existing\<lparr>updatedAt_p := nowIso E\<rparr>)))
               i emptyPatientUpdate
           = (Some (existing\<lparr>updatedAt_p := nowIso E'\<rparr>),
              clinicReducer (clinicReducer s (UPDATE_PATIENT (existing\<lparr>updatedAt_p := nowIso E\<rparr>)))
                (UPDATE_PATIENT (existing\<lparr>updatedAt_p := nowIso E'\<rparr>)))"
proof -
  from assms have idx: "id_p existing = i"
    using find_in_set [of "\<lambda>patient. id_p patient = i" "patients s" existing] by simp
  define p1 where "p1 = existing\<lparr>updatedAt_p := nowIso E\<rparr>"
  define s1 where "s1 = clinicReducer s (UPDATE_PATIENT p1)"
  have first: "updatePatient E s i emptyPatientUpdate = (Some p1, s1)"
    using assms
    by (simp add: updatePatient_def Let_def emptyPatientUpdate_def or_existing_def
          p1_def s1_def)
  have "id_p p1 = i" using idx by (simp add: p1_def)
  with assms have found: "find (\<lambda>patient. id_p patient = i) (patients s1) = Some p1"
    using find_after_replace [of id_p i "patients s" existing p1]
    by (simp add: s1_def)
  have second: "updatePatient E' s1 i emptyPatientUpdate
     = (Some (existing\<lparr>updatedAt_p := nowIso E'\<rparr>),
        clinicReducer s1 (UPDATE_PATIENT (existing\<lparr>updatedAt_p := nowIso E'\<rparr>)))"
    using found
    by (simp add: updatePatient_def Let_def emptyPatientUpdate_def or_existing_def p1_def)
  from first second show ?thesis
    unfolding s1_def p1_def by simp
qed


section \<open>Follow-ups\<close>

lemma number_str_9: "number_str 9 = ''9''"
  by code_simp

text \<open>The status as a function of the day count \<open>d\<close> that the code computes, in every
  environment: the cascade of tests gives the five ranges.\<close>

lemma getFollowUpStatus_ranges:
  assumes "truthy (followUpDate v)"
  shows "(let d = diffDays E (the (followUpDate v));
              status = getFollowUpStatus E (followUpDate v)
          in (d < 0 \<longrightarrow> status = \<lparr> label = number_str (- d)
                                        @ (if d = - 1 then '' day overdue'' else '' days overdue''),
                                      tone = destructive \<rparr>)
           \<and> (d = 0 \<longrightarrow> status = \<lparr> label = ''Due today'', tone = warning \<rparr>)
           \<and> (1 \<le> d \<and> d \<le> 3 \<longrightarrow> status = \<lparr> label = ''Due soon'', tone = warning \<rparr>)
           \<and> (4 \<le> d \<and> d \<le> 7 \<longrightarrow> status = \<lparr> label = ''Next 7 days'', tone = accent \<rparr>)
           \<and> (7 < d \<longrightarrow> status = \<lparr> label = ''In '' @ number_str d @ '' days'', tone = muted \<rparr>)
           \<and> (d = 9 \<longrightarrow> status = \<lparr> label = ''In 9 days'', tone = muted \<rparr>))"
  using assms
  by (auto simp: getFollowUpStatus_def Let_def number_str_9)

text \<open>The day count of the code in a browser with a fixed offset: the local day of
  midnight UTC of the follow-up date, less the local day of the clock.\<close>

lemma Math_round_whole_days: "Math_round (of_int (k * msInDay) / of_int msInDay) = k"
  by (simp add: Math_round_def msInDay_def)

lemma startOfDay_zone:
  "startOfDay (zone_env off stamp uuid) t = ((t + off) div msInDay) * msInDay - off"
proof -
  have "t + off = ((t + off) div msInDay) * msInDay + (t + off) mod msInDay"
    by simp
  then have "t - (t + off) mod msInDay = ((t + off) div msInDay) * msInDay - off"
    by linarith
  then show ?thesis
    by (simp add: zone_env_def)
qed

lemma diffDays_zone:
  "diffDays (zone_env off stamp uuid) isoDate
     = (utc_parse isoDate + off) div msInDay - (utc_parse stamp + off) div msInDay"
proof -
  have n: "now (zone_env off stamp uuid) = utc_parse stamp"
    "parseDate (zone_env off stamp uuid) isoDate = utc_parse isoDate"
    by (simp_all add: zone_env_def)
  have "startOfDay (zone_env off stamp uuid) (utc_parse isoDate)
          - startOfDay (zone_env off stamp uuid) (utc_parse stamp)
        = ((utc_parse isoDate + off) div msInDay - (utc_parse stamp + off) div msInDay)
            * msInDay"
    by (simp add: startOfDay_zone algebra_simps)
  then show ?thesis
    unfolding diffDays_def Let_def n
    by (simp only: Math_round_whole_days)
qed

text \<open>At or east of UTC the day count is the number of days from the local day of the
  clock to the follow-up date; west of UTC it is one less.\<close>

lemma diffDays_east_of_utc:
  assumes "length isoDate = 10" and "0 \<le> off" and "off < msInDay"
  shows "diffDays (zone_env off stamp uuid) isoDate
           = dayNumber (dateOf isoDate) - (utc_parse stamp + off) div msInDay"
proof -
  have "(utc_parse isoDate + off) div msInDay = dayNumber (dateOf isoDate)"
    using assms by (simp only: utc_parse_date_only local_day_east)
  then show ?thesis
    by (simp only: diffDays_zone)
qed

lemma diffDays_west_of_utc:
  assumes "length isoDate = 10" and "- msInDay \<le> off" and "off < 0"
  shows "diffDays (zone_env off stamp uuid) isoDate
           = dayNumber (dateOf isoDate) - 1 - (utc_parse stamp + off) div msInDay"
proof -
  have "(utc_parse isoDate + off) div msInDay = dayNumber (dateOf isoDate) - 1"
    using assms by (simp only: utc_parse_date_only local_day_west)
  then show ?thesis
    by (simp only: diffDays_zone)
qed

text \<open>
  Claim C2 says that a visit with a follow-up date gets its bucket by the literal day
  delta \<open>d\<close> from today to the follow-up date (overdue below 0, due today at 0, due
  soon from 1 to 3, next 7 days from 4 to 7, \<open>In d days\<close> above), so that a follow-up 9
  days away is \<open>In 9 days\<close>. In a browser west of UTC the code is a day short: at noon
  of 1 November 2025, five hours west of UTC, the seed visit with follow-up 2025-11-10,
  9 days away, gets \<open>In 8 days\<close>; a follow-up 8 days away gets \<open>Next 7 days\<close>, and a
  follow-up of the day itself gets \<open>1 day overdue\<close>.
\<close>

theorem C2_west_of_utc_one_day_short:
  "localDate env_west (now env_west) = (2025, 11, 1)
   \<and> followUpDate (hd (visitsSeed env_west)) = Some ''2025-11-10''
   \<and> literalDayDelta (2025, 11, 1) (dateOf ''2025-11-10'') = 9
   \<and> getFollowUpStatus env_west (followUpDate (hd (visitsSeed env_west)))
       = \<lparr> label = ''In 8 days'', tone = muted \<rparr>
   \<and> literalDayDelta (2025, 11, 1) (dateOf ''2025-11-09'') = 8
   \<and> getFollowUpStatus env_west (Some ''2025-11-09'') = \<lparr> label = ''Next 7 days'', tone = accent \<rparr>
   \<and> literalDayDelta (2025, 11, 1) (dateOf ''2025-11-01'') = 0
   \<and> getFollowUpStatus env_west (Some ''2025-11-01'')
       = \<lparr> label = ''1 day overdue'', tone = destructive \<rparr>"
proof -
  have a: "localDate env_west (now env_west) = (2025, 11, 1)"
    by code_simp
  have f: "followUpDate (hd (visitsSeed env_west)) = Some ''2025-11-10''"
    by (simp add: visitsSeed_def)
  have l: "literalDayDelta (2025, 11, 1) (dateOf ''2025-11-10'') = 9"
    "literalDayDelta (2025, 11, 1) (dateOf ''2025-11-09'') = 8"
    "literalDayDelta (2025, 11, 1) (dateOf ''2025-11-01'') = 0"
    by code_simp+
  have d: "diffDays env_west ''2025-11-10'' = 8" "diffDays env_west ''2025-11-09'' = 7"
    "diffDays env_west ''2025-11-01'' = - 1"
    by code_simp+
  have n: "number_str 8 = ''8''" "number_str 1 = ''1''"
    by code_simp+
  have s: "getFollowUpStatus env_west (Some ''2025-11-10'') = \<lparr> label = ''In 8 days'', tone = muted \<rparr>"
    "getFollowUpStatus env_west (Some ''2025-11-09'') = \<lparr> label = ''Next 7 days'', tone = accent \<rparr>"
    "getFollowUpStatus env_west (Some ''2025-11-01'')
       = \<lparr> label = ''1 day overdue'', tone = destructive \<rparr>"
    by (simp_all add: getFollowUpStatus_def Let_def d n)
  from a f l s show ?thesis by simp
qed

text \<open>
  Claim C9. A visit without a follow-up date is in none of the follow-up views (the card
  of the home page, the list of the patients page, the next follow-up on the page of a
  patient), and the status function gives it the placeholder \<open>No date set\<close>, which is
  the status of no visit that has a date.
\<close>

theorem C9_no_follow_up_date:
  assumes "\<not> truthy (followUpDate v)"
  shows "v \<notin> set (upcomingFollowUps_home E visits')
         \<and> v \<notin> fu_visit ` set (upcomingFollowUps E patients' visits')
         \<and> (\<forall>entry. upcomingFollowUp E visits' = Some entry \<longrightarrow> fst entry \<noteq> v)
         \<and> getFollowUpStatus E (followUpDate v) = \<lparr> label = ''No date set'', tone = muted \<rparr>
         \<and> (\<forall>E' isoDate. truthy isoDate \<longrightarrow>
               getFollowUpStatus E' isoDate \<noteq> \<lparr> label = ''No date set'', tone = muted \<rparr>)"
proof -
  have home: "v \<notin> set (upcomingFollowUps_home E visits')"
    using assms by (auto simp: upcomingFollowUps_home_def dest!: in_set_takeD)
  have page: "v \<notin> fu_visit ` set (upcomingFollowUps E patients' visits')"
    using assms by (auto simp: upcomingFollowUps_def Let_def)
  have detail: "\<forall>entry. upcomingFollowUp E visits' = Some entry \<longrightarrow> fst entry \<noteq> v"
  proof (intro allI impI)
    fix entry
    assume some: "upcomingFollowUp E visits' = Some entry"
    define entries where "entries =
      sort_key (\<lambda>entry. parseDate E (snd entry))
        (filter (\<lambda>entry. startOfDay E (parseDate E (snd entry)) \<ge> startOfDay E (now E))
           (map (\<lambda>visit. (visit, the (followUpDate visit)))
              (filter (\<lambda>visit. truthy (followUpDate visit)) visits')))"
    from some have "(case entries of [] \<Rightarrow> None | e # _ \<Rightarrow> Some e) = Some entry"
      by (simp add: upcomingFollowUp_def Let_def entries_def)
    then have "entry \<in> set entries"
      by (cases entries) simp_all
    then have "truthy (followUpDate (fst entry))"
      by (auto simp: entries_def)
    with assms show "fst entry \<noteq> v"
      by auto
  qed
  have none: "getFollowUpStatus E (followUpDate v) = \<lparr> label = ''No date set'', tone = muted \<rparr>"
    using assms by (simp add: getFollowUpStatus_def)
  have other: "\<forall>E' isoDate. truthy isoDate \<longrightarrow>
               getFollowUpStatus E' isoDate \<noteq> \<lparr> label = ''No date set'', tone = muted \<rparr>"
    by (simp add: getFollowUpStatus_def Let_def)
  from home page detail none other show ?thesis by blast
qed

theorem C9_no_follow_up_date_witness:
  "\<not> truthy (followUpDate walkIn)
   \<and> walkIn \<notin> set (upcomingFollowUps_home env1 (visits (INITIAL_CLINIC_STATE env1) @ [walkIn]))
   \<and> getFollowUpStatus env1 (followUpDate walkIn) = \<lparr> label = ''No date set'', tone = muted \<rparr>
   \<and> getFollowUpStatus env1 (Some ''2025-11-10'') \<noteq> \<lparr> label = ''No date set'', tone = muted \<rparr>"
proof -
  have h: "\<not> truthy (followUpDate walkIn)"
    by (simp add: walkIn_def)
  have t: "truthy (Some ''2025-11-10'')"
    by simp
  from C9_no_follow_up_date [OF h, of env1 "visits (INITIAL_CLINIC_STATE env1) @ [walkIn]"] h t
  show ?thesis
    by blast
qed

section \<open>Analytics: the patient filter\<close>

lemma visitsGroupedByPatient_snoc:
  "visitsGroupedByPatient (xs @ [x]) =
      (let grouped = visitsGroupedByPatient xs;
           g = (if grouped (patientId_v x) = None
                then grouped(patientId_v x \<mapsto> []) else grouped)
       in g(patientId_v x \<mapsto> the (g (patientId_v x)) @ [x]))"
  by (simp add: visitsGroupedByPatient_def Let_def)

lemma visitsGroupedByPatient_lookup:
  "visitsGroupedByPatient vs pid =
     (if filter (\<lambda>v. patientId_v v = pid) vs = [] then None
      else Some (filter (\<lambda>v. patientId_v v = pid) vs))"
proof (induction vs arbitrary: pid rule: rev_induct)
  case Nil
  then show ?case by (simp add: visitsGroupedByPatient_def)
next
  case (snoc x xs)
  show ?case
  proof (cases "pid = patientId_v x")
    case True
    then show ?thesis
      by (simp add: visitsGroupedByPatient_snoc Let_def snoc.IH [of "patientId_v x"])
  next
    case False
    then show ?thesis
      by (simp add: visitsGroupedByPatient_snoc Let_def snoc.IH [of pid])
  qed
qed

lemma patientVisits_eq:
  "(case visitsGroupedByPatient vs pid of Some xs \<Rightarrow> xs | None \<Rightarrow> [])
     = filter (\<lambda>v. patientId_v v = pid) vs"
  by (simp add: visitsGroupedByPatient_lookup)

text \<open>
  Claim C8. A patient is in the filtered list exactly when it is in the list of patients
  and passes every facet: its gender is one of the selected genders when any is
  selected; its age is in the range from \<open>max 0 ageMin\<close> to
  \<open>max (max 0 ageMin) ageMax\<close>, bounds included; every selected chronic condition is one
  of its chronic conditions; and, when diagnoses are selected, some visit of the
  patient has a selected diagnosis.
\<close>

theorem C8_filteredPatients:
  "p \<in> set (filteredPatients ps vs genders ageMin ageMax conditions diseases) \<longleftrightarrow>
     p \<in> set ps
     \<and> (genders \<noteq> [] \<longrightarrow> gender_str (gender p) \<in> set genders)
     \<and> max 0 ageMin \<le> age p \<and> age p \<le> max (max 0 ageMin) ageMax
     \<and> set conditions \<subseteq> set (chronicConditions p)
     \<and> (diseases \<noteq> [] \<longrightarrow>
          (\<exists>v \<in> set vs. patientId_v v = id_p p \<and> set (diagnoses v) \<inter> set diseases \<noteq> {}))"
proof -
  have pass: "patientPasses vs genders ageMin ageMax conditions diseases p \<longleftrightarrow>
     (genders \<noteq> [] \<longrightarrow> gender_str (gender p) \<in> set genders)
     \<and> max 0 ageMin \<le> age p \<and> age p \<le> max (max 0 ageMin) ageMax
     \<and> set conditions \<subseteq> set (chronicConditions p)
     \<and> (diseases \<noteq> [] \<longrightarrow>
          (\<exists>v \<in> set vs. patientId_v v = id_p p \<and> set (diagnoses v) \<inter> set diseases \<noteq> {}))"
    unfolding patientPasses_def Let_def patientVisits_eq
    by (auto simp: list_all_iff list_ex_iff)
  show ?thesis
    by (simp add: filteredPatients_def pass)
qed


theorem C8_filteredPatients_witness:
  "[''female''] \<noteq> [] \<and> [''Hypertension''] \<noteq> []
   \<and> hd (patientsSeed env1)
       \<in> set (filteredPatients (patientsSeed env1) (visitsSeed env1) [''female''] (- 5) 40
                 [''Asthma''] [''Hypertension''])
   \<and> last (patientsSeed env1)
       \<notin> set (filteredPatients (patientsSeed env1) (visitsSeed env1) [''female''] (- 5) 40
                 [''Asthma''] [''Hypertension''])"
proof -
  have a: "calculateAge env1 ''1988-02-14'' = 37"
    by code_simp
  have amani_in: "hd (patientsSeed env1)
       \<in> set (filteredPatients (patientsSeed env1) (visitsSeed env1) [''female''] (- 5) 40
                 [''Asthma''] [''Hypertension''])"
    using C8_filteredPatients [of "hd (patientsSeed env1)" "patientsSeed env1" "visitsSeed env1"
        "[''female'']" "- 5" 40 "[''Asthma'']" "[''Hypertension'']"]
    by (simp add: patientsSeed_def visitsSeed_def a)
  have laila_out: "last (patientsSeed env1)
       \<notin> set (filteredPatients (patientsSeed env1) (visitsSeed env1) [''female''] (- 5) 40
                 [''Asthma''] [''Hypertension''])"
    using C8_filteredPatients [of "last (patientsSeed env1)" "patientsSeed env1" "visitsSeed env1"
        "[''female'']" "- 5" 40 "[''Asthma'']" "[''Hypertension'']"]
    by (simp add: patientsSeed_def)
  from amani_in laila_out show ?thesis by simp
qed

section \<open>Persistence: writing the state and loading it again\<close>

lemma those_round_trip:
  "(\<And>x. f (g x) = Some x) \<Longrightarrow> those (map (f \<circ> g) xs) = Some xs"
  by (induction xs) auto

lemma strs_round_trip: "those (map (as_str \<circ> JStr) xs) = Some xs"
  by (rule those_round_trip) (simp add: as_str_def)

lemma parse_gender_str: "parse_gender (gender_str g) = Some g"
  by (cases g) (simp_all add: parse_gender_def)

lemma parse_method_str: "parse_method (method_str m) = Some m"
  by (cases m) (simp_all add: parse_method_def)

lemma parse_contact_to_json: "parse_contact (contact_to_json c) = Some c"
  by (cases c)
     (simp add: parse_contact_def contact_to_json_def str_prop_def opt_str_prop_def
        opt_prop_def split: option.splits)

lemma parse_vitals_to_json: "parse_vitals (vitals_to_json v) = Some v"
  by (cases v)
     (simp add: parse_vitals_def vitals_to_json_def opt_str_prop_def
        opt_prop_def split: option.splits)

lemma parse_patient_to_json: "parse_patient (patient_to_json p) = Some p"
  by (cases p)
     (simp add: parse_patient_def patient_to_json_def str_prop_def opt_str_prop_def
        num_prop_def strs_prop_def strings_to_json_def strs_round_trip opt_prop_def
        parse_gender_str parse_contact_to_json split: option.splits)

lemma parse_visit_to_json: "parse_visit (visit_to_json v) = Some v"
  by (cases v)
     (simp add: parse_visit_def visit_to_json_def str_prop_def opt_str_prop_def
        strs_prop_def strings_to_json_def strs_round_trip opt_prop_def
        parse_vitals_to_json split: option.splits)

lemma parse_payment_to_json: "parse_payment (payment_to_json p) = Some p"
  by (cases p)
     (simp add: parse_payment_def payment_to_json_def str_prop_def opt_str_prop_def
        num_prop_def opt_prop_def parse_method_str split: option.splits)

lemma parse_state_to_json: "parse_state (state_to_json s) = Some s"
  by (simp add: parse_state_def state_to_json_def arr_prop_def
        those_round_trip [of parse_patient patient_to_json, OF parse_patient_to_json]
        those_round_trip [of parse_visit visit_to_json, OF parse_visit_to_json]
        those_round_trip [of parse_payment payment_to_json, OF parse_payment_to_json])

lemma keepIfNotBlank_idem: "keepIfNotBlank (keepIfNotBlank x) = keepIfNotBlank x"
  by (simp add: keepIfNotBlank_def split: option.splits)

lemma sanitizeContact_idem: "sanitizeContact (sanitizeContact c) = sanitizeContact c"
  by (simp add: sanitizeContact_def keepIfNotBlank_idem)

lemma seed_sanitized: "contactsSanitized (INITIAL_CLINIC_STATE E)"
  by (simp add: contactsSanitized_def INITIAL_CLINIC_STATE_def patientsSeed_def
        sanitizeContact_def keepIfNotBlank_eq blank_def js_whitespace_def)

lemma load_sanitized: "contactsSanitized (loadInitialState E w)"
proof (cases "\<exists>j parsed. w = Window (Parsed j) \<and> parse_state j = Some parsed")
  case True
  then show ?thesis
    by (auto simp: loadInitialState_def contactsSanitized_def list_all_iff
          sanitizeContact_idem)
next
  case False
  then have "loadInitialState E w = INITIAL_CLINIC_STATE E"
    by (auto simp: loadInitialState_def split: window.splits stored_item.splits option.splits)
  then show ?thesis
    by (simp add: seed_sanitized)
qed

lemma addPatient_sanitized:
  "contactsSanitized s \<Longrightarrow> contactsSanitized (snd (addPatient E s d))"
  by (simp add: addPatient_def Let_def contactsSanitized_def sanitizeContact_idem)

lemma updatePatient_sanitized:
  assumes "contactsSanitized s"
  shows "contactsSanitized (snd (updatePatient E s i d))"
proof (cases "find (\<lambda>patient. id_p patient = i) (patients s)")
  case None
  then show ?thesis
    using assms by (simp add: updatePatient_def)
next
  case (Some existing)
  then have "existing \<in> set (patients s)"
    using find_in_set [of "\<lambda>patient. id_p patient = i" "patients s" existing] by simp
  with assms have ex: "sanitizeContact (contact existing) = contact existing"
    by (simp add: contactsSanitized_def list_all_iff)
  show ?thesis
    using assms Some ex
    by (auto simp: updatePatient_def Let_def contactsSanitized_def list_all_iff
          sanitizeContact_idem split: option.splits)
qed

lemma other_operations_keep_patients:
  "patients (snd (addVisit E s nv)) = patients s"
  "patients (snd (updateVisit E s i uv)) = patients s"
  "patients (snd (addPayment E s ny)) = patients s"
  "patients (snd (updatePayment E s i uy)) = patients s"
  by (simp_all add: addVisit_def updateVisit_def addPayment_def updatePayment_def Let_def
        split: option.splits)

lemma reachable_sanitized: "reachable s \<Longrightarrow> contactsSanitized s"
proof (induction rule: reachable.induct)
  case (start E w)
  then show ?case by (rule load_sanitized)
next
  case (patient_added s E np)
  then show ?case by (simp add: addPatient_sanitized)
next
  case (patient_updated s E i up)
  then show ?case by (simp add: updatePatient_sanitized)
qed (simp_all add: contactsSanitized_def other_operations_keep_patients)

text \<open>For any value of the state type, the state that comes back has the ages set
  anew and the contacts sanitized.\<close>

lemma round_trip_any_state:
  "loadInitialState E (persist (Window stored) s)
     = s\<lparr>patients := map (\<lambda>patient. patient\<lparr>age := calculateAge E (birthDate patient),
                                              contact := sanitizeContact (contact patient)\<rparr>)
                         (patients s)\<rparr>"
  by (simp add: loadInitialState_def persist_def parse_state_to_json)

text \<open>
  Claim C7. For every state the provider can hold, writing it to the storage of the
  browser and loading it again gives the same visits and payments, and the same
  patients with each age set to the value of the age function at the patient's birth
  date and every other field as it was.
\<close>

theorem C7_round_trip:
  assumes "reachable s"
  shows "(let s' = loadInitialState E (persist (Window stored) s)
          in patients s' = map (\<lambda>p. p\<lparr>age := calculateAge E (birthDate p)\<rparr>) (patients s)
             \<and> visits s' = visits s
             \<and> payments s' = payments s)"
proof -
  from assms have "contactsSanitized s"
    by (rule reachable_sanitized)
  then have "\<And>p. p \<in> set (patients s) \<Longrightarrow> sanitizeContact (contact p) = contact p"
    by (simp add: contactsSanitized_def list_all_iff)
  then show ?thesis
    by (simp add: Let_def round_trip_any_state)
qed

theorem C7_round_trip_witness:
  "reachable (snd (addPatient env1 (INITIAL_CLINIC_STATE env1) amani))
   \<and> (let s = snd (addPatient env1 (INITIAL_CLINIC_STATE env1) amani);
          s' = loadInitialState env2 (persist (Window NoItem) s)
      in map age (patients s') = [37, 50, 30, 37]
         \<and> map contact (patients s') = map contact (patients s)
         \<and> visits s' = visitsSeed env1
         \<and> payments s' = paymentsSeed)"
proof -
  have "reachable (loadInitialState env1 NoWindow)"
    by (rule reachable.start)
  then have "reachable (INITIAL_CLINIC_STATE env1)"
    by (simp add: loadInitialState_def)
  then have r: "reachable (snd (addPatient env1 (INITIAL_CLINIC_STATE env1) amani))"
    by (rule reachable.patient_added)
  have a: "calculateAge env2 ''1988-02-14'' = 37" "calculateAge env2 ''1975-07-03'' = 50"
    "calculateAge env2 ''1994-11-22'' = 30"
    by code_simp+
  from C7_round_trip [OF r, of env2 NoItem] r a show ?thesis
    by (simp add: Let_def addPatient_def INITIAL_CLINIC_STATE_def patientsSeed_def amani_def
          comp_def)
qed

end
